theory Spec2Isabelle
  imports Main
begin

section \<open>Value types\<close>

text \<open>
  Modelled from the spec: the declarations of \<open>PID\<close>, \<open>CPUID\<close>, \<open>Priority\<close>,
  \<open>ThreadState\<close> and of the conflict policies are not part of
  \<open>sched_event_loader.go\<close>. The spec describes \<open>PID\<close> and \<open>CPUID\<close> as opaque
  identifiers, \<open>Priority\<close> as an integer-like value with a distinguished unknown
  sentinel, \<open>ThreadState\<close> as one of Unknown, Running, Waiting, Sleeping, and the
  policies as Assert, Drop and InsertSynthetic. The constructors \<open>PID\<close>, \<open>CPUID\<close>
  and \<open>Priority\<close> stand for the Go conversions \<open>PID(x)\<close>, \<open>CPUID(x)\<close> and
  \<open>Priority(x)\<close> of a numeric field; numeric fields are unbounded integers here.
\<close>

datatype PID = PID int

datatype CPUID = UnknownCPU | CPUID int

datatype Priority = UnknownPriority | Priority int

datatype ThreadState = UnknownState | RunningState | WaitingState | SleepingState

datatype ConflictPolicy = Assert | Drop | InsertSynthetic

section \<open>String bank\<close>

text \<open>
  Modelled from the spec: the string bank (type \<open>stringBank\<close> and its interning
  operation) is not part of \<open>sched_event_loader.go\<close>. The spec gives its contract:
  given a text value it returns a stable handle such that equal text always returns
  the same handle, and it accumulates but never removes entries (append-only growth).
  The bank is the list of the texts interned so far, the handle of a text is its
  position; interning an unseen text appends it.
\<close>

type_synonym stringID = nat

type_synonym stringBank = "string list"

fun lookupID :: "string \<Rightarrow> stringBank \<Rightarrow> stringID option" where
  "lookupID s [] = None"
| "lookupID s (x # xs) = (if x = s then Some 0 else map_option Suc (lookupID s xs))"

definition intern :: "string \<Rightarrow> stringBank \<Rightarrow> stringID \<times> stringBank" where
  "intern s b = (case lookupID s b of Some h \<Rightarrow> (h, b) | None \<Rightarrow> (length b, b @ [s]))"

text \<open>
  Modelled from the spec: the value of the command channel of a transition. The
  builder interns the command text it is given, so the channel holds the handle that
  the string bank gives to the text, or Unknown while no command was set.
\<close>

datatype Command = UnknownCommand | Command stringID

section \<open>Events and errors\<close>

text \<open>
  Modelled from the spec: \<open>trace.Event\<close> is declared in another package. The loaders
  read its fields \<open>Index\<close>, \<open>Timestamp\<close>, \<open>CPU\<close>, \<open>Clipped\<close>, \<open>Name\<close> and the two
  property maps keyed by field name, both allowed to be partially populated.
\<close>

record Event =
  Index :: int
  Name :: string
  CPU :: int
  Timestamp :: int
  Clipped :: bool
  TextProperties :: "string \<rightharpoonup> string"
  NumberProperties :: "string \<rightharpoonup> int"

text \<open>
  \<open>ev.TextProperties[key]\<close> without the \<open>ok\<close> result: Go yields the zero value of the
  element type, the empty string, for a key that is not in the map.
\<close>

definition textProperty :: "Event \<Rightarrow> string \<Rightarrow> string" where
  "textProperty ev key = (case TextProperties ev key of None \<Rightarrow> [] | Some s \<Rightarrow> s)"

text \<open>
  The two errors of the file: \<open>errors.New(msg)\<close>, and the status error of code
  \<open>NotFound\<close> whose message is formatted from a field name and an event index.
\<close>

datatype error = ErrorsNew string | StatusNotFound string int

definition MissingFieldError :: "string \<Rightarrow> Event \<Rightarrow> error" where
  "MissingFieldError fieldName ev = StatusNotFound fieldName (Index ev)"

section \<open>Thread transitions and their builder\<close>

text \<open>
  Modelled from the spec: \<open>threadTransition\<close> and \<open>ThreadTransitionSetBuilder\<close> with
  its methods are not part of \<open>sched_event_loader.go\<close>. Following the spec, a
  transition has an event index, a timestamp and a PID, a (previous, next) pair for
  each of the channels command, priority, CPU and state, and a forwards and a
  backwards conflict policy for CPU and for state. A channel defaults to
  Unknown/Unknown and a policy to Assert until overridden. The builder is bound to a
  string bank, starts a new transition with \<open>WithTransition\<close>, applies every setter to
  the transition currently being configured (the one started last), interns command
  text in the bank, and finalizes to the list of its transitions in the order their
  construction began. The spec does not say what a setter does before any transition
  was started; the loaders never do that, and the model leaves the transitions as
  they are. The fields of a transition are written with a small initial letter
  (\<open>eventIndex\<close>, \<open>timestamp\<close>, \<open>pid\<close>, \<open>prevState\<close>, ...), since \<open>Timestamp\<close>,
  \<open>PID\<close> and \<open>PrevState\<close> name a field of the event, the type of process
  identifiers and a field of \<open>SwitchData\<close>. \<open>current f\<close> applies \<open>f\<close> to the transition
  currently being configured.
\<close>

record threadTransition =
  eventIndex :: int
  timestamp :: int
  pid :: PID
  prevCommand :: Command
  nextCommand :: Command
  prevPriority :: Priority
  nextPriority :: Priority
  prevCPU :: CPUID
  nextCPU :: CPUID
  prevState :: ThreadState
  nextState :: ThreadState
  onForwardsCPUConflict :: ConflictPolicy
  onBackwardsCPUConflict :: ConflictPolicy
  onForwardsStateConflict :: ConflictPolicy
  onBackwardsStateConflict :: ConflictPolicy

record ThreadTransitionSetBuilder =
  bank :: stringBank
  tts :: "threadTransition list"

definition newThreadTransitionSetBuilder :: "stringBank \<Rightarrow> ThreadTransitionSetBuilder" where
  "newThreadTransitionSetBuilder sb = \<lparr>bank = sb, tts = []\<rparr>"

definition WithTransition ::
  "int \<Rightarrow> int \<Rightarrow> PID \<Rightarrow> ThreadTransitionSetBuilder \<Rightarrow> ThreadTransitionSetBuilder" where
  "WithTransition idx ts p ttsb =
     ttsb\<lparr>tts := tts ttsb @
       [\<lparr>eventIndex = idx, timestamp = ts, pid = p,
         prevCommand = UnknownCommand, nextCommand = UnknownCommand,
         prevPriority = UnknownPriority, nextPriority = UnknownPriority,
         prevCPU = UnknownCPU, nextCPU = UnknownCPU,
         prevState = UnknownState, nextState = UnknownState,
         onForwardsCPUConflict = Assert, onBackwardsCPUConflict = Assert,
         onForwardsStateConflict = Assert, onBackwardsStateConflict = Assert\<rparr>]\<rparr>"

definition current ::
  "(threadTransition \<Rightarrow> threadTransition) \<Rightarrow> ThreadTransitionSetBuilder \<Rightarrow> ThreadTransitionSetBuilder" where
  "current f ttsb =
     (if tts ttsb = [] then ttsb
      else ttsb\<lparr>tts := butlast (tts ttsb) @ [f (last (tts ttsb))]\<rparr>)"

definition WithPrevCommand :: "string \<Rightarrow> ThreadTransitionSetBuilder \<Rightarrow> ThreadTransitionSetBuilder" where
  "WithPrevCommand comm ttsb =
     (case intern comm (bank ttsb) of
        (h, sb) \<Rightarrow> current (\<lambda>t. t\<lparr>prevCommand := Command h\<rparr>) (ttsb\<lparr>bank := sb\<rparr>))"

definition WithNextCommand :: "string \<Rightarrow> ThreadTransitionSetBuilder \<Rightarrow> ThreadTransitionSetBuilder" where
  "WithNextCommand comm ttsb =
     (case intern comm (bank ttsb) of
        (h, sb) \<Rightarrow> current (\<lambda>t. t\<lparr>nextCommand := Command h\<rparr>) (ttsb\<lparr>bank := sb\<rparr>))"

definition WithPrevPriority :: "Priority \<Rightarrow> ThreadTransitionSetBuilder \<Rightarrow> ThreadTransitionSetBuilder" where
  "WithPrevPriority p = current (\<lambda>t. t\<lparr>prevPriority := p\<rparr>)"

definition WithNextPriority :: "Priority \<Rightarrow> ThreadTransitionSetBuilder \<Rightarrow> ThreadTransitionSetBuilder" where
  "WithNextPriority p = current (\<lambda>t. t\<lparr>nextPriority := p\<rparr>)"

definition WithPrevCPU :: "CPUID \<Rightarrow> ThreadTransitionSetBuilder \<Rightarrow> ThreadTransitionSetBuilder" where
  "WithPrevCPU c = current (\<lambda>t. t\<lparr>prevCPU := c\<rparr>)"

definition WithNextCPU :: "CPUID \<Rightarrow> ThreadTransitionSetBuilder \<Rightarrow> ThreadTransitionSetBuilder" where
  "WithNextCPU c = current (\<lambda>t. t\<lparr>nextCPU := c\<rparr>)"

definition WithPrevState :: "ThreadState \<Rightarrow> ThreadTransitionSetBuilder \<Rightarrow> ThreadTransitionSetBuilder" where
  "WithPrevState s = current (\<lambda>t. t\<lparr>prevState := s\<rparr>)"

definition WithNextState :: "ThreadState \<Rightarrow> ThreadTransitionSetBuilder \<Rightarrow> ThreadTransitionSetBuilder" where
  "WithNextState s = current (\<lambda>t. t\<lparr>nextState := s\<rparr>)"

definition OnForwardsCPUConflict :: "ConflictPolicy \<Rightarrow> ThreadTransitionSetBuilder \<Rightarrow> ThreadTransitionSetBuilder" where
  "OnForwardsCPUConflict p = current (\<lambda>t. t\<lparr>onForwardsCPUConflict := p\<rparr>)"

definition OnBackwardsCPUConflict :: "ConflictPolicy \<Rightarrow> ThreadTransitionSetBuilder \<Rightarrow> ThreadTransitionSetBuilder" where
  "OnBackwardsCPUConflict p = current (\<lambda>t. t\<lparr>onBackwardsCPUConflict := p\<rparr>)"

definition OnForwardsStateConflict :: "ConflictPolicy \<Rightarrow> ThreadTransitionSetBuilder \<Rightarrow> ThreadTransitionSetBuilder" where
  "OnForwardsStateConflict p = current (\<lambda>t. t\<lparr>onForwardsStateConflict := p\<rparr>)"

definition OnBackwardsStateConflict :: "ConflictPolicy \<Rightarrow> ThreadTransitionSetBuilder \<Rightarrow> ThreadTransitionSetBuilder" where
  "OnBackwardsStateConflict p = current (\<lambda>t. t\<lparr>onBackwardsStateConflict := p\<rparr>)"

definition transitions :: "ThreadTransitionSetBuilder \<Rightarrow> threadTransition list" where
  "transitions ttsb = tts ttsb"

section \<open>The loaders of \<open>sched_event_loader.go\<close>\<close>

text \<open>
  A loader function \<open>func(*trace.Event, *ThreadTransitionSetBuilder) error\<close> mutates
  the builder it is given and returns an error or \<open>nil\<close>: here it takes the builder
  and returns the error, if any, with the builder as it left it. A chain of builder
  calls \<open>ttsb.A(..).B(..)\<close>, each of which returns the builder it mutated, is
  \<open>chain [A .., B ..] ttsb\<close>: the calls applied to the builder from left to right.
\<close>

definition chain ::
  "(ThreadTransitionSetBuilder \<Rightarrow> ThreadTransitionSetBuilder) list \<Rightarrow>
   ThreadTransitionSetBuilder \<Rightarrow> ThreadTransitionSetBuilder" where
  "chain calls ttsb = fold (\<lambda>call b. call b) calls ttsb"

type_synonym loader =
  "Event \<Rightarrow> ThreadTransitionSetBuilder \<Rightarrow> error option \<times> ThreadTransitionSetBuilder"

definition LoadSchedMigrateTask :: loader where
  "LoadSchedMigrateTask ev ttsb =
     (case NumberProperties ev ''pid'' of
        None \<Rightarrow> (Some (MissingFieldError ''pid'' ev), ttsb)
      | Some pid' \<Rightarrow>
          let comm = textProperty ev ''comm'';
              priority = (case NumberProperties ev ''prio'' of
                            None \<Rightarrow> UnknownPriority
                          | Some prio \<Rightarrow> Priority prio)
          in (case NumberProperties ev ''orig_cpu'' of
                None \<Rightarrow> (Some (MissingFieldError ''orig_cpu'' ev), ttsb)
              | Some origCPU \<Rightarrow>
                  (case NumberProperties ev ''dest_cpu'' of
                     None \<Rightarrow> (Some (MissingFieldError ''dest_cpu'' ev), ttsb)
                   | Some destCPU \<Rightarrow>
                       (None,
                        chain
                        [WithTransition (Index ev) (Timestamp ev) (PID pid'),
                         WithPrevCommand comm,
                         WithNextCommand comm,
                         WithPrevPriority priority,
                         WithNextPriority priority,
                         WithPrevCPU (CPUID origCPU),
                         WithNextCPU (CPUID destCPU)] ttsb))))"

record SwitchData =
  NextPID :: PID
  PrevPID :: PID
  NextComm :: string
  PrevComm :: string
  NextPriority :: Priority
  PrevPriority :: Priority
  PrevState :: ThreadState

definition LoadSwitchData :: "Event \<Rightarrow> error + SwitchData" where
  "LoadSwitchData ev =
     (case NumberProperties ev ''next_pid'' of
        None \<Rightarrow> Inl (MissingFieldError ''next_pid'' ev)
      | Some nextPID \<Rightarrow>
          let nextComm = textProperty ev ''next_comm'';
              nextPriority = (case NumberProperties ev ''next_prio'' of
                                None \<Rightarrow> UnknownPriority
                              | Some nextPrio \<Rightarrow> Priority nextPrio)
          in (case NumberProperties ev ''prev_pid'' of
                None \<Rightarrow> Inl (MissingFieldError ''prev_pid'' ev)
              | Some prevPID \<Rightarrow>
                  let prevComm = textProperty ev ''prev_comm'';
                      prevPriority = (case NumberProperties ev ''prev_prio'' of
                                        None \<Rightarrow> UnknownPriority
                                      | Some prevPrio \<Rightarrow> Priority prevPrio)
                  in (case NumberProperties ev ''prev_state'' of
                        None \<Rightarrow> Inl (MissingFieldError ''prev_state'' ev)
                      | Some prevTaskState \<Rightarrow>
                          Inr \<lparr>NextPID = PID nextPID,
                               PrevPID = PID prevPID,
                               NextComm = nextComm,
                               PrevComm = prevComm,
                               NextPriority = nextPriority,
                               PrevPriority = prevPriority,
                               PrevState = (if prevTaskState \<noteq> 0 then SleepingState
                                            else WaitingState)\<rparr>)))"

definition LoadSchedSwitch :: loader where
  "LoadSchedSwitch ev ttsb =
     (case LoadSwitchData ev of
        Inl err \<Rightarrow> (Some err, ttsb)
      | Inr sd \<Rightarrow>
          let ttsb1 = chain
            [WithTransition (Index ev) (Timestamp ev) (NextPID sd),
             WithPrevCommand (NextComm sd),
             WithNextCommand (NextComm sd),
             WithPrevPriority (NextPriority sd),
             WithNextPriority (NextPriority sd),
             WithPrevCPU (CPUID (CPU ev)),
             WithNextCPU (CPUID (CPU ev)),
             WithNextState RunningState] ttsb;
              ttsb2 = chain
            [WithTransition (Index ev) (Timestamp ev) (PrevPID sd),
             WithPrevCommand (PrevComm sd),
             WithNextCommand (PrevComm sd),
             WithPrevPriority (PrevPriority sd),
             WithNextPriority (PrevPriority sd),
             WithPrevCPU (CPUID (CPU ev)),
             WithNextCPU (CPUID (CPU ev)),
             WithPrevState RunningState,
             WithNextState (PrevState sd)] ttsb1
          in (None, ttsb2))"

definition LoadSchedWakeup :: loader where
  "LoadSchedWakeup ev ttsb =
     (case NumberProperties ev ''pid'' of
        None \<Rightarrow> (Some (MissingFieldError ''pid'' ev), ttsb)
      | Some pid' \<Rightarrow>
          let comm = textProperty ev ''comm'';
              priority = (case NumberProperties ev ''prio'' of
                            None \<Rightarrow> UnknownPriority
                          | Some prio \<Rightarrow> Priority prio)
          in (case NumberProperties ev ''target_cpu'' of
                None \<Rightarrow> (Some (MissingFieldError ''target_cpu'' ev), ttsb)
              | Some targetCPU \<Rightarrow>
                  (None,
                   chain
                   [WithTransition (Index ev) (Timestamp ev) (PID pid'),
                    WithPrevCommand comm,
                    WithNextCommand comm,
                    WithPrevPriority priority,
                    WithNextPriority priority,
                    WithPrevCPU (CPUID targetCPU),
                    WithNextCPU (CPUID targetCPU),
                    WithNextState WaitingState,
                    OnBackwardsCPUConflict Drop,
                    OnForwardsCPUConflict Drop,
                    OnForwardsStateConflict Drop] ttsb)))"

definition LoadSchedSwitchWithSynthetics :: loader where
  "LoadSchedSwitchWithSynthetics ev ttsb =
     (case LoadSwitchData ev of
        Inl err \<Rightarrow> (Some err, ttsb)
      | Inr sd \<Rightarrow>
          let ttsb1 = chain
            [WithTransition (Index ev) (Timestamp ev) (NextPID sd),
             WithPrevCommand (NextComm sd),
             WithNextCommand (NextComm sd),
             WithPrevPriority (NextPriority sd),
             WithNextPriority (NextPriority sd),
             WithPrevCPU (CPUID (CPU ev)),
             WithNextCPU (CPUID (CPU ev)),
             WithPrevState WaitingState,
             WithNextState RunningState,
             OnForwardsCPUConflict InsertSynthetic,
             OnBackwardsCPUConflict InsertSynthetic,
             OnForwardsStateConflict InsertSynthetic,
             OnBackwardsStateConflict InsertSynthetic] ttsb;
              ttsb2 = chain
            [WithTransition (Index ev) (Timestamp ev) (PrevPID sd),
             WithPrevCommand (PrevComm sd),
             WithNextCommand (PrevComm sd),
             WithPrevPriority (PrevPriority sd),
             WithNextPriority (PrevPriority sd),
             WithPrevCPU (CPUID (CPU ev)),
             WithNextCPU (CPUID (CPU ev)),
             WithPrevState RunningState,
             WithNextState (PrevState sd),
             OnForwardsCPUConflict InsertSynthetic,
             OnBackwardsCPUConflict InsertSynthetic,
             OnForwardsStateConflict InsertSynthetic,
             OnBackwardsStateConflict InsertSynthetic] ttsb1
          in (None, ttsb2))"

definition DefaultEventLoaders :: "(string \<times> loader) list" where
  "DefaultEventLoaders =
     [(''sched_migrate_task'', LoadSchedMigrateTask),
      (''sched_switch'', LoadSchedSwitch),
      (''sched_wakeup'', LoadSchedWakeup),
      (''sched_wakeup_new'', LoadSchedWakeup)]"

definition SwitchOnlyLoaders :: "(string \<times> loader) list" where
  "SwitchOnlyLoaders = [(''sched_switch'', LoadSchedSwitchWithSynthetics)]"

section \<open>The event loader\<close>

text \<open>
  The Go map from tracepoint name to loader function is the list of its entries,
  looked up with \<open>map_of\<close>; its \<open>len\<close> is zero exactly when the list is empty. The
  registry holds a pointer to the string bank, which the builder of each call
  mutates: \<open>threadTransitions\<close> returns the registry with the bank as the call left it.
\<close>

record eventLoader =
  stringBank :: stringBank
  loaders :: "(string \<times> loader) list"

definition newEventLoader ::
  "(string \<times> loader) list \<Rightarrow> stringBank \<Rightarrow> eventLoader option \<times> error option" where
  "newEventLoader ls sb =
     (if length ls = 0
      then (None, Some (ErrorsNew ''an empty eventLoader cannot generate threadTransitions''))
      else (Some \<lparr>stringBank = sb, loaders = ls\<rparr>, None))"

definition threadTransitions ::
  "eventLoader \<Rightarrow> Event \<Rightarrow> (threadTransition list \<times> error option) \<times> eventLoader" where
  "threadTransitions el ev =
     (if Clipped ev then (([], None), el)
      else
        let ttsb = newThreadTransitionSetBuilder (stringBank el) in
        (case map_of (loaders el) (Name ev) of
           None \<Rightarrow> (([], None), el)
         | Some ld \<Rightarrow>
             (case ld ev ttsb of
                (Some err, ttsb') \<Rightarrow> (([], Some err), el\<lparr>stringBank := bank ttsb'\<rparr>)
              | (None, ttsb') \<Rightarrow> ((transitions ttsb', None), el\<lparr>stringBank := bank ttsb'\<rparr>))))"

section \<open>Example inputs\<close>

text \<open>
  A fresh builder on an empty string bank, and the \<open>sched_switch\<close> event of the
  spec's testable properties: \<open>next_pid=5\<close>, \<open>prev_pid=7\<close>, \<open>next_comm="a"\<close>,
  \<open>prev_comm="b"\<close>, \<open>prev_state=0\<close>, reported by CPU 2.
\<close>

definition ttsb0 :: ThreadTransitionSetBuilder where
  "ttsb0 = newThreadTransitionSetBuilder []"

definition switchEvent :: Event where
  "switchEvent =
     \<lparr>Index = 1, Name = ''sched_switch'', CPU = 2, Timestamp = 2000, Clipped = False,
      TextProperties = [''next_comm'' \<mapsto> ''a'', ''prev_comm'' \<mapsto> ''b''],
      NumberProperties = [''next_pid'' \<mapsto> 5, ''prev_pid'' \<mapsto> 7, ''prev_state'' \<mapsto> 0]\<rparr>"

text \<open>
  The \<open>sched_migrate_task\<close> event of the spec's testable properties (\<open>pid=42\<close>,
  \<open>orig_cpu=1\<close>, \<open>dest_cpu=3\<close>, \<open>comm="x"\<close>, \<open>prio=10\<close>) and its wakeup event
  (\<open>pid=9\<close>, \<open>target_cpu=4\<close>, no \<open>comm\<close> and no \<open>prio\<close>).
\<close>

definition migrateEvent :: Event where
  "migrateEvent =
     \<lparr>Index = 0, Name = ''sched_migrate_task'', CPU = 1, Timestamp = 1000, Clipped = False,
      TextProperties = [''comm'' \<mapsto> ''x''],
      NumberProperties = [''pid'' \<mapsto> 42, ''orig_cpu'' \<mapsto> 1, ''dest_cpu'' \<mapsto> 3,
                          ''prio'' \<mapsto> 10]\<rparr>"

definition wakeupEvent :: Event where
  "wakeupEvent =
     \<lparr>Index = 2, Name = ''sched_wakeup'', CPU = 0, Timestamp = 3000, Clipped = False,
      TextProperties = Map.empty,
      NumberProperties = [''pid'' \<mapsto> 9, ''target_cpu'' \<mapsto> 4]\<rparr>"

text \<open>
  The registries of the default loaders and of the switch-only loaders, each on an
  empty string bank; a clipped
  \<open>sched_migrate_task\<close> event without any field; and an event of a tracepoint
  that no loader set of the file registers.
\<close>

definition defaultLoader :: eventLoader where
  "defaultLoader = \<lparr>stringBank = [], loaders = DefaultEventLoaders\<rparr>"

definition switchOnlyLoader :: eventLoader where
  "switchOnlyLoader = \<lparr>stringBank = [], loaders = SwitchOnlyLoaders\<rparr>"

definition clippedEvent :: Event where
  "clippedEvent =
     \<lparr>Index = 3, Name = ''sched_migrate_task'', CPU = 0, Timestamp = 4000, Clipped = True,
      TextProperties = Map.empty, NumberProperties = Map.empty\<rparr>"

definition exitEvent :: Event where
  "exitEvent =
     \<lparr>Index = 4, Name = ''sched_process_exit'', CPU = 0, Timestamp = 5000, Clipped = False,
      TextProperties = [''comm'' \<mapsto> ''x''], NumberProperties = [''pid'' \<mapsto> 42]\<rparr>"

text \<open>
  The difference the spec states between the two \<open>sched_switch\<close> loaders: all four
  directional policies of a transition set to InsertSynthetic.
\<close>

definition withSynthetics :: "threadTransition \<Rightarrow> threadTransition" where
  "withSynthetics t =
     t\<lparr>onForwardsCPUConflict := InsertSynthetic, onBackwardsCPUConflict := InsertSynthetic,
       onForwardsStateConflict := InsertSynthetic, onBackwardsStateConflict := InsertSynthetic\<rparr>"

text \<open>
  The required numeric fields of the loaders, in the order in which each loader
  tests them, and the first of a list of fields that an event lacks.
\<close>

definition migrateFields :: "string list" where
  "migrateFields = [''pid'', ''orig_cpu'', ''dest_cpu'']"

definition switchFields :: "string list" where
  "switchFields = [''next_pid'', ''prev_pid'', ''prev_state'']"

definition wakeupFields :: "string list" where
  "wakeupFields = [''pid'', ''target_cpu'']"

definition firstMissing :: "Event \<Rightarrow> string list \<Rightarrow> string option" where
  "firstMissing ev fs = find (\<lambda>f. NumberProperties ev f = None) fs"

text \<open>
  A \<open>sched_migrate_task\<close> event that is not clipped and carries no field at all, and
  the migrate event above without its \<open>dest_cpu\<close>.
\<close>

definition bareMigrateEvent :: Event where
  "bareMigrateEvent =
     \<lparr>Index = 5, Name = ''sched_migrate_task'', CPU = 0, Timestamp = 6000, Clipped = False,
      TextProperties = Map.empty, NumberProperties = Map.empty\<rparr>"

definition migrateEventNoDest :: Event where
  "migrateEventNoDest =
     migrateEvent\<lparr>NumberProperties := (NumberProperties migrateEvent)(''dest_cpu'' := None)\<rparr>"

text \<open>
  The migrate and switch events above without their text fields, and the data that
  \<open>LoadSwitchData\<close> extracts from the latter.
\<close>

definition migrateEventNoComm :: Event where
  "migrateEventNoComm = migrateEvent\<lparr>TextProperties := Map.empty\<rparr>"

definition switchEventNoComm :: Event where
  "switchEventNoComm = switchEvent\<lparr>TextProperties := Map.empty\<rparr>"

definition switchDataNoComm :: SwitchData where
  "switchDataNoComm =
     \<lparr>NextPID = PID 5, PrevPID = PID 7, NextComm = [], PrevComm = [],
      NextPriority = UnknownPriority, PrevPriority = UnknownPriority,
      PrevState = WaitingState\<rparr>"

section \<open>Loaders that only write into the builder\<close>

text \<open>
  The spec describes an interpreter as a pure function of the event that writes into
  the builder it is given. \<open>builderCalls\<close> are the calls the builder offers;
  a loader satisfies \<open>usesBuilderCallsOnly\<close> when, for each event, the error it
  returns and the calls it makes on the builder are determined by the event alone.
  \<open>keepsHandles b b'\<close> says that every text interned in the bank \<open>b\<close> has the same
  handle in \<open>b'\<close>.
\<close>

inductive_set builderCalls ::
  "(ThreadTransitionSetBuilder \<Rightarrow> ThreadTransitionSetBuilder) set" where
  "WithTransition idx ts p \<in> builderCalls"
| "WithPrevCommand comm \<in> builderCalls"
| "WithNextCommand comm \<in> builderCalls"
| "WithPrevPriority prio \<in> builderCalls"
| "WithNextPriority prio \<in> builderCalls"
| "WithPrevCPU cpu \<in> builderCalls"
| "WithNextCPU cpu \<in> builderCalls"
| "WithPrevState st \<in> builderCalls"
| "WithNextState st \<in> builderCalls"
| "OnForwardsCPUConflict pol \<in> builderCalls"
| "OnBackwardsCPUConflict pol \<in> builderCalls"
| "OnForwardsStateConflict pol \<in> builderCalls"
| "OnBackwardsStateConflict pol \<in> builderCalls"

definition usesBuilderCallsOnly :: "loader \<Rightarrow> bool" where
  "usesBuilderCallsOnly ld \<longleftrightarrow>
     (\<forall>ev. \<exists>err calls. set calls \<subseteq> builderCalls \<and>
        (\<forall>ttsb. ld ev ttsb = (err, chain calls ttsb)))"

definition keepsHandles :: "stringBank \<Rightarrow> stringBank \<Rightarrow> bool" where
  "keepsHandles b b' \<longleftrightarrow> (\<forall>s h. lookupID s b = Some h \<longrightarrow> lookupID s b' = Some h)"

section \<open>The string bank keeps its handles\<close>

lemma lookupID_append_Some: "lookupID s b = Some h \<Longrightarrow> lookupID s (b @ c) = Some h"
  by (induction b arbitrary: h) (auto split: if_splits)

lemma lookupID_snoc_new: "lookupID s b = None \<Longrightarrow> lookupID s (b @ [s]) = Some (length b)"
  by (induction b) (auto split: if_splits)

lemma lookupID_intern: "lookupID s (snd (intern s b)) = Some (fst (intern s b))"
  by (simp add: intern_def lookupID_snoc_new split: option.splits)

lemma lookupID_intern_other:
  "lookupID s b = Some h \<Longrightarrow> lookupID s (snd (intern t b)) = Some h"
  by (simp add: intern_def lookupID_append_Some split: option.splits)

lemma intern_known: "lookupID s b = Some h \<Longrightarrow> intern s b = (h, b)"
  by (simp add: intern_def)

lemma intern_again: "intern s (snd (intern s b)) = (fst (intern s b), snd (intern s b))"
  by (rule intern_known) (rule lookupID_intern)

section \<open>Builder calls on the transition being configured\<close>

lemma current_snoc:
  "current f (ttsb\<lparr>tts := xs @ [t]\<rparr>) = ttsb\<lparr>tts := xs @ [f t]\<rparr>"
  by (simp add: current_def)

lemmas setter_defs =
  WithPrevPriority_def WithNextPriority_def WithPrevCPU_def WithNextCPU_def
  WithPrevState_def WithNextState_def OnForwardsCPUConflict_def OnBackwardsCPUConflict_def
  OnForwardsStateConflict_def OnBackwardsStateConflict_def

lemma WithPrevCommand_snoc:
  "WithPrevCommand c (ttsb\<lparr>tts := xs @ [t]\<rparr>) =
     ttsb\<lparr>bank := snd (intern c (bank ttsb)),
          tts := xs @ [t\<lparr>prevCommand := Command (fst (intern c (bank ttsb)))\<rparr>]\<rparr>"
  by (simp add: WithPrevCommand_def current_def split: prod.splits)

lemma WithNextCommand_snoc:
  "WithNextCommand c (ttsb\<lparr>tts := xs @ [t]\<rparr>) =
     ttsb\<lparr>bank := snd (intern c (bank ttsb)),
          tts := xs @ [t\<lparr>nextCommand := Command (fst (intern c (bank ttsb)))\<rparr>]\<rparr>"
  by (simp add: WithNextCommand_def current_def split: prod.splits)

lemma current_snoc2:
  "current f (ttsb\<lparr>tts := xs @ [t1, t2]\<rparr>) = ttsb\<lparr>tts := xs @ [t1, f t2]\<rparr>"
  by (simp add: current_def butlast_append)

lemma WithPrevCommand_snoc2:
  "WithPrevCommand c (ttsb\<lparr>tts := xs @ [t1, t2]\<rparr>) =
     ttsb\<lparr>bank := snd (intern c (bank ttsb)),
          tts := xs @ [t1, t2\<lparr>prevCommand := Command (fst (intern c (bank ttsb)))\<rparr>]\<rparr>"
  by (simp add: WithPrevCommand_def current_def butlast_append split: prod.splits)

lemma WithNextCommand_snoc2:
  "WithNextCommand c (ttsb\<lparr>tts := xs @ [t1, t2]\<rparr>) =
     ttsb\<lparr>bank := snd (intern c (bank ttsb)),
          tts := xs @ [t1, t2\<lparr>nextCommand := Command (fst (intern c (bank ttsb)))\<rparr>]\<rparr>"
  by (simp add: WithNextCommand_def current_def butlast_append split: prod.splits)

lemmas chain_simps =
  chain_def WithTransition_def setter_defs current_snoc WithPrevCommand_snoc WithNextCommand_snoc
  current_snoc2 WithPrevCommand_snoc2 WithNextCommand_snoc2
  Let_def intern_again

section \<open>What \<open>LoadSwitchData\<close> and the two \<open>sched_switch\<close> loaders compute\<close>

lemma LoadSwitchData_ok:
  assumes "NumberProperties ev ''next_pid'' = Some np"
    and "NumberProperties ev ''prev_pid'' = Some pp"
    and "NumberProperties ev ''prev_state'' = Some ps"
  shows "LoadSwitchData ev =
     Inr \<lparr>NextPID = PID np, PrevPID = PID pp,
          NextComm = textProperty ev ''next_comm'', PrevComm = textProperty ev ''prev_comm'',
          NextPriority = (case NumberProperties ev ''next_prio'' of
                            None \<Rightarrow> UnknownPriority | Some x \<Rightarrow> Priority x),
          PrevPriority = (case NumberProperties ev ''prev_prio'' of
                            None \<Rightarrow> UnknownPriority | Some x \<Rightarrow> Priority x),
          PrevState = (if ps \<noteq> 0 then SleepingState else WaitingState)\<rparr>"
  using assms by (simp add: LoadSwitchData_def Let_def)

lemma LoadSchedSwitch_Inr:
  assumes "LoadSwitchData ev = Inr sd"
  shows "LoadSchedSwitch ev ttsb =
    (None,
     ttsb\<lparr>bank := snd (intern (PrevComm sd) (snd (intern (NextComm sd) (bank ttsb)))),
          tts := tts ttsb @
            [\<lparr>eventIndex = Index ev, timestamp = Timestamp ev, pid = NextPID sd,
              prevCommand = Command (fst (intern (NextComm sd) (bank ttsb))),
              nextCommand = Command (fst (intern (NextComm sd) (bank ttsb))),
              prevPriority = NextPriority sd, nextPriority = NextPriority sd,
              prevCPU = CPUID (CPU ev), nextCPU = CPUID (CPU ev),
              prevState = UnknownState, nextState = RunningState,
              onForwardsCPUConflict = Assert, onBackwardsCPUConflict = Assert,
              onForwardsStateConflict = Assert, onBackwardsStateConflict = Assert\<rparr>,
             \<lparr>eventIndex = Index ev, timestamp = Timestamp ev, pid = PrevPID sd,
              prevCommand = Command (fst (intern (PrevComm sd) (snd (intern (NextComm sd) (bank ttsb))))),
              nextCommand = Command (fst (intern (PrevComm sd) (snd (intern (NextComm sd) (bank ttsb))))),
              prevPriority = PrevPriority sd, nextPriority = PrevPriority sd,
              prevCPU = CPUID (CPU ev), nextCPU = CPUID (CPU ev),
              prevState = RunningState, nextState = PrevState sd,
              onForwardsCPUConflict = Assert, onBackwardsCPUConflict = Assert,
              onForwardsStateConflict = Assert, onBackwardsStateConflict = Assert\<rparr>]\<rparr>)"
  using assms by (simp add: LoadSchedSwitch_def chain_simps)

lemma LoadSchedSwitchWithSynthetics_Inr:
  assumes "LoadSwitchData ev = Inr sd"
  shows "LoadSchedSwitchWithSynthetics ev ttsb =
    (None,
     ttsb\<lparr>bank := snd (intern (PrevComm sd) (snd (intern (NextComm sd) (bank ttsb)))),
          tts := tts ttsb @
            [\<lparr>eventIndex = Index ev, timestamp = Timestamp ev, pid = NextPID sd,
              prevCommand = Command (fst (intern (NextComm sd) (bank ttsb))),
              nextCommand = Command (fst (intern (NextComm sd) (bank ttsb))),
              prevPriority = NextPriority sd, nextPriority = NextPriority sd,
              prevCPU = CPUID (CPU ev), nextCPU = CPUID (CPU ev),
              prevState = WaitingState, nextState = RunningState,
              onForwardsCPUConflict = InsertSynthetic,
              onBackwardsCPUConflict = InsertSynthetic,
              onForwardsStateConflict = InsertSynthetic,
              onBackwardsStateConflict = InsertSynthetic\<rparr>,
             \<lparr>eventIndex = Index ev, timestamp = Timestamp ev, pid = PrevPID sd,
              prevCommand = Command (fst (intern (PrevComm sd) (snd (intern (NextComm sd) (bank ttsb))))),
              nextCommand = Command (fst (intern (PrevComm sd) (snd (intern (NextComm sd) (bank ttsb))))),
              prevPriority = PrevPriority sd, nextPriority = PrevPriority sd,
              prevCPU = CPUID (CPU ev), nextCPU = CPUID (CPU ev),
              prevState = RunningState, nextState = PrevState sd,
              onForwardsCPUConflict = InsertSynthetic,
              onBackwardsCPUConflict = InsertSynthetic,
              onForwardsStateConflict = InsertSynthetic,
              onBackwardsStateConflict = InsertSynthetic\<rparr>]\<rparr>)"
  using assms by (simp add: LoadSchedSwitchWithSynthetics_def chain_simps)

lemma LoadSchedSwitch_Inl:
  "LoadSwitchData ev = Inl e \<Longrightarrow> LoadSchedSwitch ev ttsb = (Some e, ttsb)"
  by (simp add: LoadSchedSwitch_def)

lemma LoadSchedSwitchWithSynthetics_Inl:
  "LoadSwitchData ev = Inl e \<Longrightarrow> LoadSchedSwitchWithSynthetics ev ttsb = (Some e, ttsb)"
  by (simp add: LoadSchedSwitchWithSynthetics_def)

lemma switchEvent_data:
  "LoadSwitchData switchEvent =
     Inr \<lparr>NextPID = PID 5, PrevPID = PID 7, NextComm = ''a'', PrevComm = ''b'',
          NextPriority = UnknownPriority, PrevPriority = UnknownPriority,
          PrevState = WaitingState\<rparr>"
  by (simp add: LoadSwitchData_def Let_def switchEvent_def textProperty_def)

section \<open>What \<open>LoadSchedMigrateTask\<close> and \<open>LoadSchedWakeup\<close> compute\<close>

lemma LoadSchedMigrateTask_ok:
  assumes "NumberProperties ev ''pid'' = Some p"
    and "NumberProperties ev ''orig_cpu'' = Some oc"
    and "NumberProperties ev ''dest_cpu'' = Some dc"
  shows "LoadSchedMigrateTask ev ttsb =
    (None,
     ttsb\<lparr>bank := snd (intern (textProperty ev ''comm'') (bank ttsb)),
          tts := tts ttsb @
            [\<lparr>eventIndex = Index ev, timestamp = Timestamp ev, pid = PID p,
              prevCommand = Command (fst (intern (textProperty ev ''comm'') (bank ttsb))),
              nextCommand = Command (fst (intern (textProperty ev ''comm'') (bank ttsb))),
              prevPriority = (case NumberProperties ev ''prio'' of
                                None \<Rightarrow> UnknownPriority | Some x \<Rightarrow> Priority x),
              nextPriority = (case NumberProperties ev ''prio'' of
                                None \<Rightarrow> UnknownPriority | Some x \<Rightarrow> Priority x),
              prevCPU = CPUID oc, nextCPU = CPUID dc,
              prevState = UnknownState, nextState = UnknownState,
              onForwardsCPUConflict = Assert, onBackwardsCPUConflict = Assert,
              onForwardsStateConflict = Assert, onBackwardsStateConflict = Assert\<rparr>]\<rparr>)"
  using assms by (simp add: LoadSchedMigrateTask_def chain_simps)

lemma LoadSchedWakeup_ok:
  assumes "NumberProperties ev ''pid'' = Some p"
    and "NumberProperties ev ''target_cpu'' = Some tc"
  shows "LoadSchedWakeup ev ttsb =
    (None,
     ttsb\<lparr>bank := snd (intern (textProperty ev ''comm'') (bank ttsb)),
          tts := tts ttsb @
            [\<lparr>eventIndex = Index ev, timestamp = Timestamp ev, pid = PID p,
              prevCommand = Command (fst (intern (textProperty ev ''comm'') (bank ttsb))),
              nextCommand = Command (fst (intern (textProperty ev ''comm'') (bank ttsb))),
              prevPriority = (case NumberProperties ev ''prio'' of
                                None \<Rightarrow> UnknownPriority | Some x \<Rightarrow> Priority x),
              nextPriority = (case NumberProperties ev ''prio'' of
                                None \<Rightarrow> UnknownPriority | Some x \<Rightarrow> Priority x),
              prevCPU = CPUID tc, nextCPU = CPUID tc,
              prevState = UnknownState, nextState = WaitingState,
              onForwardsCPUConflict = Drop, onBackwardsCPUConflict = Drop,
              onForwardsStateConflict = Drop, onBackwardsStateConflict = Assert\<rparr>]\<rparr>)"
  using assms by (simp add: LoadSchedWakeup_def chain_simps)

lemma transitions_ttsb0: "transitions ttsb0 = []"
  by (simp add: ttsb0_def transitions_def newThreadTransitionSetBuilder_def)

section \<open>Errors of the loaders\<close>

lemma LoadSchedMigrateTask_error:
  "fst (LoadSchedMigrateTask ev ttsb) =
     map_option (\<lambda>f. MissingFieldError f ev) (firstMissing ev migrateFields)"
  by (simp add: LoadSchedMigrateTask_def firstMissing_def migrateFields_def Let_def
      split: option.splits)

lemma LoadSchedMigrateTask_error_builder:
  "fst (LoadSchedMigrateTask ev ttsb) = Some e \<Longrightarrow> snd (LoadSchedMigrateTask ev ttsb) = ttsb"
  by (simp add: LoadSchedMigrateTask_def Let_def split: option.splits)

lemma LoadSchedWakeup_error:
  "fst (LoadSchedWakeup ev ttsb) =
     map_option (\<lambda>f. MissingFieldError f ev) (firstMissing ev wakeupFields)"
  by (simp add: LoadSchedWakeup_def firstMissing_def wakeupFields_def Let_def
      split: option.splits)

lemma LoadSchedWakeup_error_builder:
  "fst (LoadSchedWakeup ev ttsb) = Some e \<Longrightarrow> snd (LoadSchedWakeup ev ttsb) = ttsb"
  by (simp add: LoadSchedWakeup_def Let_def split: option.splits)

lemma LoadSwitchData_error:
  "(case LoadSwitchData ev of Inl e \<Rightarrow> Some e | Inr sd \<Rightarrow> None) =
     map_option (\<lambda>f. MissingFieldError f ev) (firstMissing ev switchFields)"
  by (simp add: LoadSwitchData_def Let_def firstMissing_def switchFields_def split: option.splits)

lemma LoadSchedSwitch_error:
  "fst (LoadSchedSwitch ev ttsb) =
     map_option (\<lambda>f. MissingFieldError f ev) (firstMissing ev switchFields)"
  unfolding LoadSwitchData_error [symmetric]
  by (simp add: LoadSchedSwitch_def Let_def split: sum.splits)

lemma LoadSchedSwitch_error_builder:
  "fst (LoadSchedSwitch ev ttsb) = Some e \<Longrightarrow> snd (LoadSchedSwitch ev ttsb) = ttsb"
  by (simp add: LoadSchedSwitch_def Let_def split: sum.splits)

lemma LoadSchedSwitchWithSynthetics_error:
  "fst (LoadSchedSwitchWithSynthetics ev ttsb) =
     map_option (\<lambda>f. MissingFieldError f ev) (firstMissing ev switchFields)"
  unfolding LoadSwitchData_error [symmetric]
  by (simp add: LoadSchedSwitchWithSynthetics_def Let_def split: sum.splits)

lemma LoadSchedSwitchWithSynthetics_error_builder:
  "fst (LoadSchedSwitchWithSynthetics ev ttsb) = Some e \<Longrightarrow>
   snd (LoadSchedSwitchWithSynthetics ev ttsb) = ttsb"
  by (simp add: LoadSchedSwitchWithSynthetics_def Let_def split: sum.splits)

lemma firstMissing_only:
  "f \<in> set fs \<Longrightarrow> NumberProperties ev f = None \<Longrightarrow>
   (\<forall>g \<in> set fs. g \<noteq> f \<longrightarrow> NumberProperties ev g \<noteq> None) \<Longrightarrow>
   firstMissing ev fs = Some f"
  unfolding firstMissing_def by (induction fs) auto

lemma threadTransitions_loader_error:
  assumes "\<not> Clipped ev" and "map_of (loaders el) (Name ev) = Some ld"
    and "ld ev (newThreadTransitionSetBuilder (stringBank el)) = (Some e, ttsb')"
  shows "threadTransitions el ev = (([], Some e), el\<lparr>stringBank := bank ttsb'\<rparr>)"
  using assms by (simp add: threadTransitions_def)

lemma threadTransitions_loader_error_iff:
  assumes "\<not> Clipped ev" and "map_of (loaders el) (Name ev) = Some ld"
  shows "snd (fst (threadTransitions el ev)) =
           fst (ld ev (newThreadTransitionSetBuilder (stringBank el)))"
  using assms by (simp add: threadTransitions_def split: prod.splits option.splits)

section \<open>Absent optional fields\<close>

lemma textProperty_absent: "TextProperties ev key = None \<Longrightarrow> textProperty ev key = []"
  by (simp add: textProperty_def)

lemma LoadSwitchData_absent:
  assumes "LoadSwitchData ev = Inr sd"
  shows "(TextProperties ev ''next_comm'' = None \<longrightarrow> NextComm sd = []) \<and>
         (TextProperties ev ''prev_comm'' = None \<longrightarrow> PrevComm sd = []) \<and>
         (NumberProperties ev ''next_prio'' = None \<longrightarrow> NextPriority sd = UnknownPriority) \<and>
         (NumberProperties ev ''prev_prio'' = None \<longrightarrow> PrevPriority sd = UnknownPriority)"
  using assms
  by (auto simp: LoadSwitchData_def Let_def textProperty_absent split: option.splits)

section \<open>Running the same builder calls again on the bank they left\<close>

lemma keepsHandles_refl: "keepsHandles b b"
  by (simp add: keepsHandles_def)

lemma keepsHandles_trans: "keepsHandles a b \<Longrightarrow> keepsHandles b c \<Longrightarrow> keepsHandles a c"
  by (simp add: keepsHandles_def)

lemma keepsHandles_intern: "keepsHandles b (snd (intern s b))"
  by (simp add: keepsHandles_def lookupID_intern_other)

lemma bank_current: "bank (current f x) = bank x"
  by (simp add: current_def)

lemma tts_current:
  "tts (current f x) = (if tts x = [] then [] else butlast (tts x) @ [f (last (tts x))])"
  by (simp add: current_def)

lemma builderCalls_cases:
  assumes "c \<in> builderCalls"
  obtains (start) idx ts p where "c = WithTransition idx ts p"
  | (prev) comm where "c = WithPrevCommand comm"
  | (nxt) comm where "c = WithNextCommand comm"
  | (field) f where "c = current f"
  using assms by (cases rule: builderCalls.cases) (auto simp: setter_defs)

lemma call_keepsHandles:
  assumes "c \<in> builderCalls"
  shows "keepsHandles (bank x) (bank (c x))"
  using assms
proof (cases rule: builderCalls_cases)
  case (start idx ts p)
  then show ?thesis by (simp add: WithTransition_def keepsHandles_refl)
next
  case (prev comm)
  then show ?thesis
    by (simp add: WithPrevCommand_def bank_current keepsHandles_intern split: prod.splits)
      (metis keepsHandles_intern snd_conv)
next
  case (nxt comm)
  then show ?thesis
    by (simp add: WithNextCommand_def bank_current keepsHandles_intern split: prod.splits)
      (metis keepsHandles_intern snd_conv)
next
  case (field f)
  then show ?thesis by (simp add: bank_current keepsHandles_refl)
qed

lemma chain_Nil: "chain [] x = x"
  by (simp add: chain_def)

lemma chain_Cons: "chain (c # cs) x = chain cs (c x)"
  by (simp add: chain_def)

lemma chain_append: "chain (cs @ ds) x = chain ds (chain cs x)"
  by (simp add: chain_def)

lemma chain_keepsHandles:
  "set calls \<subseteq> builderCalls \<Longrightarrow> keepsHandles (bank x) (bank (chain calls x))"
proof (induction calls arbitrary: x)
  case Nil
  then show ?case by (simp add: chain_Nil keepsHandles_refl)
next
  case (Cons c cs)
  from Cons.prems have "keepsHandles (bank x) (bank (c x))"
    by (simp add: call_keepsHandles)
  moreover from Cons have "keepsHandles (bank (c x)) (bank (chain cs (c x)))" by simp
  ultimately show ?case by (simp add: chain_Cons) (rule keepsHandles_trans)
qed

lemma intern_keepsHandles:
  assumes "keepsHandles (snd (intern s b)) b'"
  shows "intern s b' = (fst (intern s b), b')"
proof -
  from assms lookupID_intern [of s b] have "lookupID s b' = Some (fst (intern s b))"
    by (simp add: keepsHandles_def)
  then show ?thesis by (rule intern_known)
qed

lemma call_again:
  assumes "c \<in> builderCalls" and "tts y = tts x" and "keepsHandles (bank (c x)) (bank y)"
  shows "tts (c y) = tts (c x) \<and> bank (c y) = bank y"
  using assms(1)
proof (cases rule: builderCalls_cases)
  case (start idx ts p)
  with assms(2) show ?thesis by (simp add: WithTransition_def)
next
  case (prev comm)
  with assms(3) have "keepsHandles (snd (intern comm (bank x))) (bank y)"
    by (simp add: WithPrevCommand_def bank_current split: prod.splits)
  from intern_keepsHandles [OF this] prev assms(2) show ?thesis
    by (simp add: WithPrevCommand_def bank_current tts_current split: prod.splits)
next
  case (nxt comm)
  with assms(3) have "keepsHandles (snd (intern comm (bank x))) (bank y)"
    by (simp add: WithNextCommand_def bank_current split: prod.splits)
  from intern_keepsHandles [OF this] nxt assms(2) show ?thesis
    by (simp add: WithNextCommand_def bank_current tts_current split: prod.splits)
next
  case (field f)
  with assms(2) show ?thesis by (simp add: bank_current tts_current)
qed

lemma chain_again:
  "set calls \<subseteq> builderCalls \<Longrightarrow> tts y = tts x \<Longrightarrow>
   keepsHandles (bank (chain calls x)) (bank y) \<Longrightarrow>
   tts (chain calls y) = tts (chain calls x) \<and> bank (chain calls y) = bank y"
proof (induction calls arbitrary: x y)
  case Nil
  then show ?case by (simp add: chain_Nil)
next
  case (Cons c cs)
  from Cons.prems(1) have c: "c \<in> builderCalls" and cs: "set cs \<subseteq> builderCalls" by simp_all
  from Cons.prems(3) have k: "keepsHandles (bank (chain cs (c x))) (bank y)"
    by (simp add: chain_Cons)
  from chain_keepsHandles [OF cs, of "c x"] k have "keepsHandles (bank (c x)) (bank y)"
    by (rule keepsHandles_trans)
  from call_again [OF c Cons.prems(2) this]
  have t: "tts (c y) = tts (c x)" and b: "bank (c y) = bank y" by simp_all
  from k b have "keepsHandles (bank (chain cs (c x))) (bank (c y))" by simp
  from Cons.IH [OF cs t this] b show ?case by (simp add: chain_Cons)
qed

lemma chain_fresh_again:
  assumes "set calls \<subseteq> builderCalls"
  shows "chain calls (newThreadTransitionSetBuilder
           (bank (chain calls (newThreadTransitionSetBuilder sb)))) =
         chain calls (newThreadTransitionSetBuilder sb)"
proof -
  let ?x = "newThreadTransitionSetBuilder sb"
  let ?y = "newThreadTransitionSetBuilder (bank (chain calls ?x))"
  have "tts ?y = tts ?x" and "keepsHandles (bank (chain calls ?x)) (bank ?y)"
    by (simp_all add: newThreadTransitionSetBuilder_def keepsHandles_refl)
  from chain_again [OF assms this]
  have "tts (chain calls ?y) = tts (chain calls ?x)"
    and "bank (chain calls ?y) = bank (chain calls ?x)"
    by (simp_all add: newThreadTransitionSetBuilder_def)
  then show ?thesis by simp
qed

lemma usesBuilderCallsOnly_error:
  assumes "\<And>ttsb. ld ev ttsb = (Some e, ttsb)"
  shows "\<exists>err calls. set calls \<subseteq> builderCalls \<and> (\<forall>ttsb. ld ev ttsb = (err, chain calls ttsb))"
  using assms by (intro exI [of _ "Some e"] exI [of _ "[]"]) (simp add: chain_Nil)

lemma usesBuilderCallsOnly_ok:
  assumes "\<And>ttsb. ld ev ttsb = (None, chain calls ttsb)" and "set calls \<subseteq> builderCalls"
  shows "\<exists>err calls. set calls \<subseteq> builderCalls \<and> (\<forall>ttsb. ld ev ttsb = (err, chain calls ttsb))"
  using assms by blast

lemma LoadSchedMigrateTask_calls: "usesBuilderCallsOnly LoadSchedMigrateTask"
  unfolding usesBuilderCallsOnly_def
proof
  fix ev
  show "\<exists>err calls. set calls \<subseteq> builderCalls \<and>
          (\<forall>ttsb. LoadSchedMigrateTask ev ttsb = (err, chain calls ttsb))"
  proof (cases "firstMissing ev migrateFields")
    case None
    then obtain p oc dc where "NumberProperties ev ''pid'' = Some p"
      "NumberProperties ev ''orig_cpu'' = Some oc" "NumberProperties ev ''dest_cpu'' = Some dc"
      by (auto simp: firstMissing_def migrateFields_def split: if_splits)
    then show ?thesis
      by (intro usesBuilderCallsOnly_ok)
        (auto simp: LoadSchedMigrateTask_def Let_def intro: builderCalls.intros)
  next
    case (Some f)
    have "LoadSchedMigrateTask ev ttsb = (Some (MissingFieldError f ev), ttsb)" for ttsb
      using Some LoadSchedMigrateTask_error [of ev ttsb]
        LoadSchedMigrateTask_error_builder [of ev ttsb]
      by (simp add: prod_eq_iff)
    then show ?thesis by (rule usesBuilderCallsOnly_error)
  qed
qed

lemma LoadSchedWakeup_calls: "usesBuilderCallsOnly LoadSchedWakeup"
  unfolding usesBuilderCallsOnly_def
proof
  fix ev
  show "\<exists>err calls. set calls \<subseteq> builderCalls \<and>
          (\<forall>ttsb. LoadSchedWakeup ev ttsb = (err, chain calls ttsb))"
  proof (cases "firstMissing ev wakeupFields")
    case None
    then obtain p tc where "NumberProperties ev ''pid'' = Some p"
      "NumberProperties ev ''target_cpu'' = Some tc"
      by (auto simp: firstMissing_def wakeupFields_def split: if_splits)
    then show ?thesis
      by (intro usesBuilderCallsOnly_ok)
        (auto simp: LoadSchedWakeup_def Let_def intro: builderCalls.intros)
  next
    case (Some f)
    have "LoadSchedWakeup ev ttsb = (Some (MissingFieldError f ev), ttsb)" for ttsb
      using Some LoadSchedWakeup_error [of ev ttsb] LoadSchedWakeup_error_builder [of ev ttsb]
      by (simp add: prod_eq_iff)
    then show ?thesis by (rule usesBuilderCallsOnly_error)
  qed
qed

lemma LoadSchedSwitch_calls: "usesBuilderCallsOnly LoadSchedSwitch"
  unfolding usesBuilderCallsOnly_def
proof
  fix ev
  show "\<exists>err calls. set calls \<subseteq> builderCalls \<and>
          (\<forall>ttsb. LoadSchedSwitch ev ttsb = (err, chain calls ttsb))"
  proof (cases "LoadSwitchData ev")
    case (Inl e)
    then show ?thesis
      by (intro usesBuilderCallsOnly_error) (rule LoadSchedSwitch_Inl)
  next
    case (Inr sd)
    then show ?thesis
      by (intro usesBuilderCallsOnly_ok)
        (auto simp: LoadSchedSwitch_def Let_def chain_append [symmetric]
          intro: builderCalls.intros)
  qed
qed

lemma LoadSchedSwitchWithSynthetics_calls: "usesBuilderCallsOnly LoadSchedSwitchWithSynthetics"
  unfolding usesBuilderCallsOnly_def
proof
  fix ev
  show "\<exists>err calls. set calls \<subseteq> builderCalls \<and>
          (\<forall>ttsb. LoadSchedSwitchWithSynthetics ev ttsb = (err, chain calls ttsb))"
  proof (cases "LoadSwitchData ev")
    case (Inl e)
    then show ?thesis
      by (intro usesBuilderCallsOnly_error) (rule LoadSchedSwitchWithSynthetics_Inl)
  next
    case (Inr sd)
    then show ?thesis
      by (intro usesBuilderCallsOnly_ok)
        (auto simp: LoadSchedSwitchWithSynthetics_def Let_def chain_append [symmetric]
          intro: builderCalls.intros)
  qed
qed

section \<open>The claims\<close>

subsection \<open>C1\<close>

text \<open>
  C1. On every \<open>sched_switch\<close> event that carries \<open>next_pid\<close>, \<open>prev_pid\<close> and
  \<open>prev_state\<close>, \<open>LoadSchedSwitch\<close> returns no error and appends exactly two
  transitions to the builder, both with the index and the timestamp of the event.
  The first is for \<open>next_pid\<close>: previous and next command are the handle of the
  \<open>next_comm\<close> text, previous and next priority are equal, previous and next CPU are
  the reporting CPU, the next state is Running. The second is for \<open>prev_pid\<close>:
  previous and next command are the handle of the \<open>prev_comm\<close> text, previous and
  next priority are equal, previous and next CPU are the reporting CPU, the previous
  state is Running, and the next state is Waiting when \<open>prev_state\<close> is 0 and
  Sleeping for every other value.
\<close>

theorem LoadSchedSwitch_two_transitions:
  assumes "NumberProperties ev ''next_pid'' = Some np"
    and "NumberProperties ev ''prev_pid'' = Some pp"
    and "NumberProperties ev ''prev_state'' = Some ps"
  shows "\<exists>t1 t2 h1 h2.
     fst (LoadSchedSwitch ev ttsb) = None \<and>
     transitions (snd (LoadSchedSwitch ev ttsb)) = transitions ttsb @ [t1, t2] \<and>
     lookupID (textProperty ev ''next_comm'') (bank (snd (LoadSchedSwitch ev ttsb))) = Some h1 \<and>
     lookupID (textProperty ev ''prev_comm'') (bank (snd (LoadSchedSwitch ev ttsb))) = Some h2 \<and>
     eventIndex t1 = Index ev \<and> timestamp t1 = Timestamp ev \<and> pid t1 = PID np \<and>
     prevCommand t1 = Command h1 \<and> nextCommand t1 = Command h1 \<and>
     prevPriority t1 = nextPriority t1 \<and>
     nextPriority t1 = (case NumberProperties ev ''next_prio'' of
                          None \<Rightarrow> UnknownPriority | Some x \<Rightarrow> Priority x) \<and>
     prevCPU t1 = CPUID (CPU ev) \<and> nextCPU t1 = CPUID (CPU ev) \<and>
     nextState t1 = RunningState \<and>
     eventIndex t2 = Index ev \<and> timestamp t2 = Timestamp ev \<and> pid t2 = PID pp \<and>
     prevCommand t2 = Command h2 \<and> nextCommand t2 = Command h2 \<and>
     prevPriority t2 = nextPriority t2 \<and>
     nextPriority t2 = (case NumberProperties ev ''prev_prio'' of
                          None \<Rightarrow> UnknownPriority | Some x \<Rightarrow> Priority x) \<and>
     prevCPU t2 = CPUID (CPU ev) \<and> nextCPU t2 = CPUID (CPU ev) \<and>
     prevState t2 = RunningState \<and>
     nextState t2 = (if ps = 0 then WaitingState else SleepingState)"
  by (simp add: LoadSchedSwitch_Inr [OF LoadSwitchData_ok [OF assms]] transitions_def
      lookupID_intern lookupID_intern_other)

theorem LoadSchedSwitch_two_transitions_witness:
  "NumberProperties switchEvent ''next_pid'' = Some 5 \<and>
   NumberProperties switchEvent ''prev_pid'' = Some 7 \<and>
   NumberProperties switchEvent ''prev_state'' = Some 0 \<and>
   (\<exists>t1 t2.
     fst (LoadSchedSwitch switchEvent ttsb0) = None \<and>
     transitions (snd (LoadSchedSwitch switchEvent ttsb0)) = [t1, t2] \<and>
     pid t1 = PID 5 \<and> nextState t1 = RunningState \<and>
     pid t2 = PID 7 \<and> prevState t2 = RunningState \<and> nextState t2 = WaitingState)"
proof -
  have h1: "NumberProperties switchEvent ''next_pid'' = Some 5"
    and h2: "NumberProperties switchEvent ''prev_pid'' = Some 7"
    and h3: "NumberProperties switchEvent ''prev_state'' = Some 0"
    by (simp_all add: switchEvent_def)
  from LoadSchedSwitch_two_transitions [OF h1 h2 h3, of ttsb0]
  obtain t1 t2 where
    "fst (LoadSchedSwitch switchEvent ttsb0) = None"
    "transitions (snd (LoadSchedSwitch switchEvent ttsb0)) = transitions ttsb0 @ [t1, t2]"
    "pid t1 = PID 5" "nextState t1 = RunningState"
    "pid t2 = PID 7" "prevState t2 = RunningState" "nextState t2 = WaitingState"
    by auto
  then show ?thesis using h1 h2 h3 by (auto simp: transitions_ttsb0)
qed

subsection \<open>C2\<close>

text \<open>
  C2, as the claim states it, fails. On the \<open>sched_switch\<close> event of the spec's
  testable properties both loaders succeed, but the transitions of
  \<open>LoadSchedSwitchWithSynthetics\<close> are not those of \<open>LoadSchedSwitch\<close> with the four
  policies replaced: the transition of the incoming PID has previous state Waiting,
  where \<open>LoadSchedSwitch\<close> leaves it Unknown.
\<close>

theorem LoadSchedSwitchWithSynthetics_prevState_counterexample:
  "fst (LoadSchedSwitch switchEvent ttsb0) = None \<and>
   fst (LoadSchedSwitchWithSynthetics switchEvent ttsb0) = None \<and>
   transitions (snd (LoadSchedSwitchWithSynthetics switchEvent ttsb0)) \<noteq>
     map withSynthetics (transitions (snd (LoadSchedSwitch switchEvent ttsb0))) \<and>
   map prevState (transitions (snd (LoadSchedSwitch switchEvent ttsb0))) =
     [UnknownState, RunningState] \<and>
   map prevState (transitions (snd (LoadSchedSwitchWithSynthetics switchEvent ttsb0))) =
     [WaitingState, RunningState]"
  by (simp add: LoadSchedSwitch_Inr [OF switchEvent_data]
      LoadSchedSwitchWithSynthetics_Inr [OF switchEvent_data]
      transitions_def withSynthetics_def ttsb0_def newThreadTransitionSetBuilder_def)

text \<open>
  C2, amended. Whenever \<open>LoadSchedSwitch\<close> succeeds on an event,
  \<open>LoadSchedSwitchWithSynthetics\<close> succeeds on it too, leaves the string bank in the
  same state, and appends the same two transitions except that all four directional
  policies are InsertSynthetic instead of Assert and that the previous state of the
  first transition, of the incoming PID, is Waiting instead of Unknown.
\<close>

theorem LoadSchedSwitchWithSynthetics_refines:
  assumes "fst (LoadSchedSwitch ev ttsb) = None"
  shows "\<exists>t1 t2.
     fst (LoadSchedSwitchWithSynthetics ev ttsb) = None \<and>
     bank (snd (LoadSchedSwitchWithSynthetics ev ttsb)) = bank (snd (LoadSchedSwitch ev ttsb)) \<and>
     transitions (snd (LoadSchedSwitch ev ttsb)) = transitions ttsb @ [t1, t2] \<and>
     prevState t1 = UnknownState \<and>
     onForwardsCPUConflict t1 = Assert \<and> onBackwardsCPUConflict t1 = Assert \<and>
     onForwardsStateConflict t1 = Assert \<and> onBackwardsStateConflict t1 = Assert \<and>
     onForwardsCPUConflict t2 = Assert \<and> onBackwardsCPUConflict t2 = Assert \<and>
     onForwardsStateConflict t2 = Assert \<and> onBackwardsStateConflict t2 = Assert \<and>
     transitions (snd (LoadSchedSwitchWithSynthetics ev ttsb)) =
       transitions ttsb @ [withSynthetics (t1\<lparr>prevState := WaitingState\<rparr>), withSynthetics t2]"
proof (cases "LoadSwitchData ev")
  case (Inl e)
  with assms show ?thesis by (simp add: LoadSchedSwitch_Inl)
next
  case (Inr sd)
  show ?thesis
    by (simp add: LoadSchedSwitch_Inr [OF Inr] LoadSchedSwitchWithSynthetics_Inr [OF Inr]
        transitions_def withSynthetics_def)
qed

theorem LoadSchedSwitchWithSynthetics_refines_witness:
  "fst (LoadSchedSwitch switchEvent ttsb0) = None \<and>
   (\<exists>t1 t2.
     fst (LoadSchedSwitchWithSynthetics switchEvent ttsb0) = None \<and>
     transitions (snd (LoadSchedSwitch switchEvent ttsb0)) = [t1, t2] \<and>
     transitions (snd (LoadSchedSwitchWithSynthetics switchEvent ttsb0)) =
       [withSynthetics (t1\<lparr>prevState := WaitingState\<rparr>), withSynthetics t2])"
proof -
  have h: "fst (LoadSchedSwitch switchEvent ttsb0) = None"
    by (simp add: LoadSchedSwitch_Inr [OF switchEvent_data])
  from LoadSchedSwitchWithSynthetics_refines [OF h]
  obtain t1 t2 where
    "fst (LoadSchedSwitchWithSynthetics switchEvent ttsb0) = None"
    "transitions (snd (LoadSchedSwitch switchEvent ttsb0)) = transitions ttsb0 @ [t1, t2]"
    "transitions (snd (LoadSchedSwitchWithSynthetics switchEvent ttsb0)) =
       transitions ttsb0 @ [withSynthetics (t1\<lparr>prevState := WaitingState\<rparr>), withSynthetics t2]"
    by blast
  then show ?thesis using h by (auto simp: transitions_ttsb0)
qed

subsection \<open>C3\<close>

text \<open>
  C3. On every \<open>sched_wakeup\<close> or \<open>sched_wakeup_new\<close> event that carries \<open>pid\<close> and
  \<open>target_cpu\<close>, \<open>LoadSchedWakeup\<close> returns no error and appends exactly one
  transition, for that PID: previous and next CPU are \<open>target_cpu\<close>, the previous
  state is Unknown, the next state is Waiting, the policy is Drop on the forwards
  CPU, backwards CPU and forwards state directions, and Assert, the default, on the
  backwards state direction.
\<close>

theorem LoadSchedWakeup_one_transition:
  assumes "NumberProperties ev ''pid'' = Some p"
    and "NumberProperties ev ''target_cpu'' = Some tc"
  shows "\<exists>t h.
     fst (LoadSchedWakeup ev ttsb) = None \<and>
     transitions (snd (LoadSchedWakeup ev ttsb)) = transitions ttsb @ [t] \<and>
     lookupID (textProperty ev ''comm'') (bank (snd (LoadSchedWakeup ev ttsb))) = Some h \<and>
     eventIndex t = Index ev \<and> timestamp t = Timestamp ev \<and> pid t = PID p \<and>
     prevCommand t = Command h \<and> nextCommand t = Command h \<and>
     prevPriority t = nextPriority t \<and>
     nextPriority t = (case NumberProperties ev ''prio'' of
                         None \<Rightarrow> UnknownPriority | Some x \<Rightarrow> Priority x) \<and>
     prevCPU t = CPUID tc \<and> nextCPU t = CPUID tc \<and>
     prevState t = UnknownState \<and> nextState t = WaitingState \<and>
     onForwardsCPUConflict t = Drop \<and> onBackwardsCPUConflict t = Drop \<and>
     onForwardsStateConflict t = Drop \<and> onBackwardsStateConflict t = Assert"
  by (simp add: LoadSchedWakeup_ok [OF assms] transitions_def lookupID_intern)

theorem LoadSchedWakeup_one_transition_witness:
  "NumberProperties wakeupEvent ''pid'' = Some 9 \<and>
   NumberProperties wakeupEvent ''target_cpu'' = Some 4 \<and>
   (\<exists>t.
     fst (LoadSchedWakeup wakeupEvent ttsb0) = None \<and>
     transitions (snd (LoadSchedWakeup wakeupEvent ttsb0)) = [t] \<and>
     pid t = PID 9 \<and> prevCPU t = CPUID 4 \<and> nextCPU t = CPUID 4 \<and>
     prevState t = UnknownState \<and> nextState t = WaitingState \<and>
     onForwardsCPUConflict t = Drop \<and> onBackwardsCPUConflict t = Drop \<and>
     onForwardsStateConflict t = Drop \<and> onBackwardsStateConflict t = Assert)"
proof -
  have h1: "NumberProperties wakeupEvent ''pid'' = Some 9"
    and h2: "NumberProperties wakeupEvent ''target_cpu'' = Some 4"
    by (simp_all add: wakeupEvent_def)
  from LoadSchedWakeup_one_transition [OF h1 h2, of ttsb0]
  obtain t where
    "fst (LoadSchedWakeup wakeupEvent ttsb0) = None"
    "transitions (snd (LoadSchedWakeup wakeupEvent ttsb0)) = transitions ttsb0 @ [t]"
    "pid t = PID 9" "prevCPU t = CPUID 4" "nextCPU t = CPUID 4"
    "prevState t = UnknownState" "nextState t = WaitingState"
    "onForwardsCPUConflict t = Drop" "onBackwardsCPUConflict t = Drop"
    "onForwardsStateConflict t = Drop" "onBackwardsStateConflict t = Assert"
    by auto
  then show ?thesis using h1 h2 by (auto simp: transitions_ttsb0)
qed

subsection \<open>C4\<close>

text \<open>
  C4. On every \<open>sched_migrate_task\<close> event that carries \<open>pid\<close>, \<open>orig_cpu\<close> and
  \<open>dest_cpu\<close>, \<open>LoadSchedMigrateTask\<close> returns no error and appends exactly one
  transition, for that PID: the previous CPU is \<open>orig_cpu\<close>, the next CPU is
  \<open>dest_cpu\<close>, previous and next command are the handle of the \<open>comm\<close> text,
  previous and next priority are equal (Unknown when \<open>prio\<close> is absent), the state
  is Unknown before and after, and all four policies are Assert.
\<close>

theorem LoadSchedMigrateTask_one_transition:
  assumes "NumberProperties ev ''pid'' = Some p"
    and "NumberProperties ev ''orig_cpu'' = Some oc"
    and "NumberProperties ev ''dest_cpu'' = Some dc"
  shows "\<exists>t h.
     fst (LoadSchedMigrateTask ev ttsb) = None \<and>
     transitions (snd (LoadSchedMigrateTask ev ttsb)) = transitions ttsb @ [t] \<and>
     lookupID (textProperty ev ''comm'') (bank (snd (LoadSchedMigrateTask ev ttsb))) = Some h \<and>
     eventIndex t = Index ev \<and> timestamp t = Timestamp ev \<and> pid t = PID p \<and>
     prevCommand t = Command h \<and> nextCommand t = Command h \<and>
     prevPriority t = nextPriority t \<and>
     nextPriority t = (case NumberProperties ev ''prio'' of
                         None \<Rightarrow> UnknownPriority | Some x \<Rightarrow> Priority x) \<and>
     prevCPU t = CPUID oc \<and> nextCPU t = CPUID dc \<and>
     prevState t = UnknownState \<and> nextState t = UnknownState \<and>
     onForwardsCPUConflict t = Assert \<and> onBackwardsCPUConflict t = Assert \<and>
     onForwardsStateConflict t = Assert \<and> onBackwardsStateConflict t = Assert"
  by (simp add: LoadSchedMigrateTask_ok [OF assms] transitions_def lookupID_intern)

theorem LoadSchedMigrateTask_one_transition_witness:
  "NumberProperties migrateEvent ''pid'' = Some 42 \<and>
   NumberProperties migrateEvent ''orig_cpu'' = Some 1 \<and>
   NumberProperties migrateEvent ''dest_cpu'' = Some 3 \<and>
   (\<exists>t.
     fst (LoadSchedMigrateTask migrateEvent ttsb0) = None \<and>
     transitions (snd (LoadSchedMigrateTask migrateEvent ttsb0)) = [t] \<and>
     pid t = PID 42 \<and> prevCPU t = CPUID 1 \<and> nextCPU t = CPUID 3 \<and>
     prevCommand t = nextCommand t \<and>
     prevPriority t = Priority 10 \<and> nextPriority t = Priority 10 \<and>
     prevState t = UnknownState \<and> nextState t = UnknownState \<and>
     onForwardsCPUConflict t = Assert \<and> onBackwardsCPUConflict t = Assert \<and>
     onForwardsStateConflict t = Assert \<and> onBackwardsStateConflict t = Assert)"
proof -
  have h1: "NumberProperties migrateEvent ''pid'' = Some 42"
    and h2: "NumberProperties migrateEvent ''orig_cpu'' = Some 1"
    and h3: "NumberProperties migrateEvent ''dest_cpu'' = Some 3"
    and h4: "NumberProperties migrateEvent ''prio'' = Some 10"
    by (simp_all add: migrateEvent_def)
  from LoadSchedMigrateTask_one_transition [OF h1 h2 h3, of ttsb0]
  obtain t where
    "fst (LoadSchedMigrateTask migrateEvent ttsb0) = None"
    "transitions (snd (LoadSchedMigrateTask migrateEvent ttsb0)) = transitions ttsb0 @ [t]"
    "pid t = PID 42" "prevCPU t = CPUID 1" "nextCPU t = CPUID 3"
    "prevCommand t = nextCommand t"
    "prevPriority t = nextPriority t"
    "nextPriority t = (case NumberProperties migrateEvent ''prio'' of
                         None \<Rightarrow> UnknownPriority | Some x \<Rightarrow> Priority x)"
    "prevState t = UnknownState" "nextState t = UnknownState"
    "onForwardsCPUConflict t = Assert" "onBackwardsCPUConflict t = Assert"
    "onForwardsStateConflict t = Assert" "onBackwardsStateConflict t = Assert"
    by auto
  then show ?thesis using h1 h2 h3 h4 by (auto simp: transitions_ttsb0)
qed

subsection \<open>C5\<close>

text \<open>
  C5, as the claim states it, fails in two ways. A clipped \<open>sched_migrate_task\<close>
  event that lacks \<open>pid\<close> gives no error on the registry of the default loaders. And an
  event that is not clipped and lacks all of \<open>pid\<close>, \<open>orig_cpu\<close> and \<open>dest_cpu\<close> lacks
  \<open>dest_cpu\<close>, but its error names \<open>pid\<close>, not \<open>dest_cpu\<close>.
\<close>

theorem threadTransitions_missing_field_counterexample:
  "map_of (loaders defaultLoader) (Name clippedEvent) = Some LoadSchedMigrateTask \<and>
   NumberProperties clippedEvent ''pid'' = None \<and>
   snd (fst (threadTransitions defaultLoader clippedEvent)) = None \<and>
   map_of (loaders defaultLoader) (Name bareMigrateEvent) = Some LoadSchedMigrateTask \<and>
   \<not> Clipped bareMigrateEvent \<and>
   NumberProperties bareMigrateEvent ''dest_cpu'' = None \<and>
   snd (fst (threadTransitions defaultLoader bareMigrateEvent)) =
     Some (MissingFieldError ''pid'' bareMigrateEvent) \<and>
   MissingFieldError ''pid'' bareMigrateEvent \<noteq> MissingFieldError ''dest_cpu'' bareMigrateEvent"
  by (simp add: threadTransitions_def defaultLoader_def DefaultEventLoaders_def
      clippedEvent_def bareMigrateEvent_def LoadSchedMigrateTask_def MissingFieldError_def)

text \<open>
  C5, amended. Let an event be not clipped and let the registry map its tracepoint
  name to one of the loaders of the file. If the event lacks at least one of the
  required numeric fields of that loader (migrate: \<open>pid\<close>, \<open>orig_cpu\<close>, \<open>dest_cpu\<close>;
  switch and switch with synthetics: \<open>next_pid\<close>, \<open>prev_pid\<close>, \<open>prev_state\<close>; wakeup:
  \<open>pid\<close>, \<open>target_cpu\<close>), then \<open>threadTransitions\<close> returns no transitions and the
  missing-field error that names the first field, in that order, that the event
  lacks, and the index of the event; the registry is left as it is. In particular,
  when the event lacks exactly one required field, the error names that exact field.
  The error is the one the loader returned, and \<open>threadTransitions\<close> returns no other
  error: whenever it returns an error, that is the missing-field error of the first
  required field the event lacks.
\<close>

theorem threadTransitions_missing_field:
  assumes "\<not> Clipped ev"
    and "map_of (loaders el) (Name ev) = Some ld"
    and "(ld, fs) \<in> {(LoadSchedMigrateTask, migrateFields),
                          (LoadSchedSwitch, switchFields),
                          (LoadSchedSwitchWithSynthetics, switchFields),
                          (LoadSchedWakeup, wakeupFields)}"
  shows "(\<forall>f. firstMissing ev fs = Some f \<longrightarrow>
            threadTransitions el ev = (([], Some (MissingFieldError f ev)), el)) \<and>
         (\<forall>f \<in> set fs. NumberProperties ev f = None \<longrightarrow>
            (\<forall>g \<in> set fs. g \<noteq> f \<longrightarrow> NumberProperties ev g \<noteq> None) \<longrightarrow>
            threadTransitions el ev = (([], Some (MissingFieldError f ev)), el)) \<and>
         (\<forall>e. snd (fst (threadTransitions el ev)) = Some e \<longrightarrow>
            (\<exists>f. firstMissing ev fs = Some f \<and> e = MissingFieldError f ev)) \<and>
         snd (fst (threadTransitions el ev)) =
           fst (ld ev (newThreadTransitionSetBuilder (stringBank el)))"
proof -
  let ?b = "newThreadTransitionSetBuilder (stringBank el)"
  have err: "fst (ld ev ?b) = map_option (\<lambda>f. MissingFieldError f ev) (firstMissing ev fs)"
    and same: "\<And>e. fst (ld ev ?b) = Some e \<Longrightarrow> snd (ld ev ?b) = ?b"
    using assms(3)
    by (auto simp: LoadSchedMigrateTask_error LoadSchedSwitch_error
        LoadSchedSwitchWithSynthetics_error LoadSchedWakeup_error
        LoadSchedMigrateTask_error_builder LoadSchedSwitch_error_builder
        LoadSchedSwitchWithSynthetics_error_builder LoadSchedWakeup_error_builder)
  have propagated: "snd (fst (threadTransitions el ev)) = fst (ld ev ?b)"
    by (rule threadTransitions_loader_error_iff [OF assms(1,2)])
  have first: "threadTransitions el ev = (([], Some (MissingFieldError f ev)), el)"
    if "firstMissing ev fs = Some f" for f
  proof -
    from that err have e: "fst (ld ev ?b) = Some (MissingFieldError f ev)" by simp
    with same have "ld ev ?b = (Some (MissingFieldError f ev), ?b)"
      by (simp add: prod_eq_iff)
    from threadTransitions_loader_error [OF assms(1,2) this] show ?thesis
      by (simp add: newThreadTransitionSetBuilder_def)
  qed
  have single: "threadTransitions el ev = (([], Some (MissingFieldError f ev)), el)"
    if "f \<in> set fs" and "NumberProperties ev f = None"
      and "\<forall>g \<in> set fs. g \<noteq> f \<longrightarrow> NumberProperties ev g \<noteq> None" for f
    using that by (intro first firstMissing_only)
  have only: "\<exists>f. firstMissing ev fs = Some f \<and> e = MissingFieldError f ev"
    if "snd (fst (threadTransitions el ev)) = Some e" for e
    using that propagated err by auto
  from first single only propagated show ?thesis by blast
qed

theorem threadTransitions_missing_field_witness:
  "\<not> Clipped bareMigrateEvent \<and>
   map_of (loaders defaultLoader) (Name bareMigrateEvent) = Some LoadSchedMigrateTask \<and>
   firstMissing bareMigrateEvent migrateFields = Some ''pid'' \<and>
   threadTransitions defaultLoader bareMigrateEvent =
     (([], Some (MissingFieldError ''pid'' bareMigrateEvent)), defaultLoader) \<and>
   \<not> Clipped migrateEventNoDest \<and>
   map_of (loaders defaultLoader) (Name migrateEventNoDest) = Some LoadSchedMigrateTask \<and>
   NumberProperties migrateEventNoDest ''dest_cpu'' = None \<and>
   NumberProperties migrateEventNoDest ''pid'' = Some 42 \<and>
   NumberProperties migrateEventNoDest ''orig_cpu'' = Some 1 \<and>
   threadTransitions defaultLoader migrateEventNoDest =
     (([], Some (MissingFieldError ''dest_cpu'' migrateEventNoDest)), defaultLoader)"
proof -
  have h3: "(LoadSchedMigrateTask, migrateFields) \<in>
      {(LoadSchedMigrateTask, migrateFields), (LoadSchedSwitch, switchFields),
       (LoadSchedSwitchWithSynthetics, switchFields), (LoadSchedWakeup, wakeupFields)}"
    by simp
  have h1: "\<not> Clipped bareMigrateEvent" by (simp add: bareMigrateEvent_def)
  have h2: "map_of (loaders defaultLoader) (Name bareMigrateEvent) = Some LoadSchedMigrateTask"
    by (simp add: bareMigrateEvent_def defaultLoader_def DefaultEventLoaders_def)
  have h4: "firstMissing bareMigrateEvent migrateFields = Some ''pid''"
    by (simp add: firstMissing_def migrateFields_def bareMigrateEvent_def)
  from threadTransitions_missing_field [OF h1 h2 h3] h4
  have bare: "threadTransitions defaultLoader bareMigrateEvent =
     (([], Some (MissingFieldError ''pid'' bareMigrateEvent)), defaultLoader)"
    by blast
  have g1: "\<not> Clipped migrateEventNoDest"
    by (simp add: migrateEventNoDest_def migrateEvent_def)
  have g2: "map_of (loaders defaultLoader) (Name migrateEventNoDest) = Some LoadSchedMigrateTask"
    by (simp add: migrateEventNoDest_def migrateEvent_def defaultLoader_def
        DefaultEventLoaders_def)
  have g4: "NumberProperties migrateEventNoDest ''dest_cpu'' = None"
    "NumberProperties migrateEventNoDest ''pid'' = Some 42"
    "NumberProperties migrateEventNoDest ''orig_cpu'' = Some 1"
    by (simp_all add: migrateEventNoDest_def migrateEvent_def)
  have g5: "''dest_cpu'' \<in> set migrateFields"
    and g6: "\<forall>g \<in> set migrateFields. g \<noteq> ''dest_cpu'' \<longrightarrow>
               NumberProperties migrateEventNoDest g \<noteq> None"
    using g4 by (simp_all add: migrateFields_def)
  note single = threadTransitions_missing_field [OF g1 g2 h3, THEN conjunct2, THEN conjunct1]
  from mp [OF mp [OF bspec [OF single g5] g4(1)] g6]
  have nodest: "threadTransitions defaultLoader migrateEventNoDest =
     (([], Some (MissingFieldError ''dest_cpu'' migrateEventNoDest)), defaultLoader)" .
  from h1 h2 h4 bare g1 g2 g4 nodest show ?thesis by (intro conjI)
qed

subsection \<open>C6\<close>

text \<open>
  C6. On every event whose clipped flag is set, \<open>threadTransitions\<close> returns the empty
  transition list and no error, and leaves the registry as it is, whatever the
  registry, the tracepoint name and the field maps of the event are.
\<close>

theorem threadTransitions_clipped:
  "Clipped ev \<Longrightarrow> threadTransitions el ev = (([], None), el)"
  by (simp add: threadTransitions_def)

theorem threadTransitions_clipped_witness:
  "Clipped clippedEvent \<and>
   map_of (loaders defaultLoader) (Name clippedEvent) = Some LoadSchedMigrateTask \<and>
   NumberProperties clippedEvent ''pid'' = None \<and>
   threadTransitions defaultLoader clippedEvent = (([], None), defaultLoader)"
proof -
  have h: "Clipped clippedEvent" by (simp add: clippedEvent_def)
  from threadTransitions_clipped [OF h, of defaultLoader] h show ?thesis
    by (simp add: clippedEvent_def defaultLoader_def DefaultEventLoaders_def)
qed

subsection \<open>C7\<close>

text \<open>
  C7. On every event that is not clipped and whose tracepoint name has no loader in
  the registry, \<open>threadTransitions\<close> returns the empty transition list and no error,
  and leaves the registry as it is, whatever the fields of the event are.
\<close>

theorem threadTransitions_unregistered:
  "\<not> Clipped ev \<Longrightarrow> map_of (loaders el) (Name ev) = None \<Longrightarrow>
   threadTransitions el ev = (([], None), el)"
  by (simp add: threadTransitions_def)

theorem threadTransitions_unregistered_witness:
  "\<not> Clipped exitEvent \<and> map_of (loaders defaultLoader) (Name exitEvent) = None \<and>
   threadTransitions defaultLoader exitEvent = (([], None), defaultLoader)"
proof -
  have h1: "\<not> Clipped exitEvent" by (simp add: exitEvent_def)
  have h2: "map_of (loaders defaultLoader) (Name exitEvent) = None"
    by (simp add: exitEvent_def defaultLoader_def DefaultEventLoaders_def)
  from threadTransitions_unregistered [OF h1 h2] h1 h2 show ?thesis by simp
qed

subsection \<open>C8\<close>

text \<open>
  C8. \<open>newEventLoader\<close> on an empty mapping returns no registry and the error
  \<open>errors.New("an empty eventLoader cannot generate threadTransitions")\<close>; on every
  non-empty mapping it returns no error and the registry that holds exactly that
  mapping and the string bank it was given.
\<close>

theorem newEventLoader_empty_or_registry:
  "newEventLoader [] sb =
     (None, Some (ErrorsNew ''an empty eventLoader cannot generate threadTransitions'')) \<and>
   (ls \<noteq> [] \<longrightarrow> newEventLoader ls sb = (Some \<lparr>stringBank = sb, loaders = ls\<rparr>, None))"
  by (simp add: newEventLoader_def)

theorem newEventLoader_empty_or_registry_witness:
  "DefaultEventLoaders \<noteq> [] \<and>
   newEventLoader DefaultEventLoaders [] = (Some defaultLoader, None) \<and>
   newEventLoader [] [] =
     (None, Some (ErrorsNew ''an empty eventLoader cannot generate threadTransitions''))"
proof -
  have h: "DefaultEventLoaders \<noteq> []" by (simp add: DefaultEventLoaders_def)
  from newEventLoader_empty_or_registry [of "[]" DefaultEventLoaders] h show ?thesis
    by (simp add: defaultLoader_def)
qed

subsection \<open>C9\<close>

text \<open>
  C9. Let every loader of a registry be a function of the event that acts on the
  builder only through the builder's calls, as all loaders of the file are. Then
  calling \<open>threadTransitions\<close> on an event and calling it again on the same event,
  with the string bank as the first call left it, gives the same transitions and the
  same error, and the second call leaves the registry, string bank included, as the
  first call left it: each call starts from a fresh builder, and the only state that
  survives a call is the string bank, which keeps the handle of every text.
\<close>

theorem threadTransitions_twice:
  assumes "list_all (\<lambda>entry. usesBuilderCallsOnly (snd entry)) (loaders el)"
  shows "fst (threadTransitions (snd (threadTransitions el ev)) ev) =
           fst (threadTransitions el ev) \<and>
         snd (threadTransitions (snd (threadTransitions el ev)) ev) =
           snd (threadTransitions el ev)"
proof (cases "Clipped ev")
  case True
  then show ?thesis by (simp add: threadTransitions_def)
next
  case False
  show ?thesis
  proof (cases "map_of (loaders el) (Name ev)")
    case None
    with False show ?thesis by (simp add: threadTransitions_def)
  next
    case (Some ld)
    then have "(Name ev, ld) \<in> set (loaders el)" by (rule map_of_SomeD)
    with assms have "usesBuilderCallsOnly ld" by (auto simp: list_all_iff)
    then obtain err calls where calls: "set calls \<subseteq> builderCalls"
      and ld: "\<And>ttsb. ld ev ttsb = (err, chain calls ttsb)"
      unfolding usesBuilderCallsOnly_def by blast
    let ?x = "chain calls (newThreadTransitionSetBuilder (stringBank el))"
    have first: "threadTransitions el ev =
        ((case err of Some e \<Rightarrow> [] | None \<Rightarrow> transitions ?x, err), el\<lparr>stringBank := bank ?x\<rparr>)"
      using False Some by (simp add: threadTransitions_def Let_def ld split: option.splits)
    have second: "threadTransitions (el\<lparr>stringBank := bank ?x\<rparr>) ev =
        ((case err of Some e \<Rightarrow> [] | None \<Rightarrow> transitions ?x, err), el\<lparr>stringBank := bank ?x\<rparr>)"
      using False Some
      by (simp add: threadTransitions_def Let_def ld chain_fresh_again [OF calls]
          split: option.splits)
    from first second show ?thesis by simp
  qed
qed

theorem threadTransitions_twice_witness:
  "list_all (\<lambda>entry. usesBuilderCallsOnly (snd entry)) (loaders defaultLoader) \<and>
   stringBank defaultLoader = [] \<and>
   stringBank (snd (threadTransitions defaultLoader switchEvent)) = [''a'', ''b''] \<and>
   fst (threadTransitions (snd (threadTransitions defaultLoader switchEvent)) switchEvent) =
     fst (threadTransitions defaultLoader switchEvent) \<and>
   snd (threadTransitions (snd (threadTransitions defaultLoader switchEvent)) switchEvent) =
     snd (threadTransitions defaultLoader switchEvent) \<and>
   list_all (\<lambda>entry. usesBuilderCallsOnly (snd entry)) (loaders switchOnlyLoader) \<and>
   fst (threadTransitions (snd (threadTransitions switchOnlyLoader switchEvent)) switchEvent) =
     fst (threadTransitions switchOnlyLoader switchEvent)"
proof -
  have h: "list_all (\<lambda>entry. usesBuilderCallsOnly (snd entry)) (loaders defaultLoader)"
    by (simp add: defaultLoader_def DefaultEventLoaders_def LoadSchedMigrateTask_calls
        LoadSchedSwitch_calls LoadSchedWakeup_calls)
  have h': "list_all (\<lambda>entry. usesBuilderCallsOnly (snd entry)) (loaders switchOnlyLoader)"
    by (simp add: switchOnlyLoader_def SwitchOnlyLoaders_def
        LoadSchedSwitchWithSynthetics_calls)
  have b: "stringBank (snd (threadTransitions defaultLoader switchEvent)) = [''a'', ''b'']"
    by (simp add: threadTransitions_def defaultLoader_def DefaultEventLoaders_def
        switchEvent_def LoadSchedSwitch_Inr [OF switchEvent_data, unfolded switchEvent_def]
        newThreadTransitionSetBuilder_def intern_def)
  from threadTransitions_twice [OF h, of switchEvent]
    threadTransitions_twice [OF h', of switchEvent] h h' b
  show ?thesis by (simp add: defaultLoader_def)
qed

subsection \<open>C10\<close>

text \<open>
  C10. An absent optional text field does not make a loader fail, and the command of
  the affected transition, before and after, is the handle that the string bank
  gives to the empty string: Go's map read yields \<open>""\<close> for the absent key, and the
  loaders pass that on. An absent priority field, by contrast, is replaced by
  \<open>UnknownPriority\<close>. This holds for \<open>comm\<close> and \<open>prio\<close> in \<open>LoadSchedMigrateTask\<close> and
  \<open>LoadSchedWakeup\<close> whenever their required fields are present, and for \<open>next_comm\<close>,
  \<open>prev_comm\<close>, \<open>next_prio\<close> and \<open>prev_prio\<close> in \<open>LoadSwitchData\<close> and both
  \<open>sched_switch\<close> loaders whenever \<open>LoadSwitchData\<close> succeeds.
\<close>

theorem absent_command_is_empty_string:
  "(NumberProperties ev ''pid'' = Some p \<longrightarrow> NumberProperties ev ''orig_cpu'' = Some oc \<longrightarrow>
    NumberProperties ev ''dest_cpu'' = Some dc \<longrightarrow>
      (\<exists>t. fst (LoadSchedMigrateTask ev ttsb) = None \<and>
           transitions (snd (LoadSchedMigrateTask ev ttsb)) = transitions ttsb @ [t] \<and>
           (TextProperties ev ''comm'' = None \<longrightarrow>
              (\<exists>h. lookupID [] (bank (snd (LoadSchedMigrateTask ev ttsb))) = Some h \<and>
                   prevCommand t = Command h \<and> nextCommand t = Command h)) \<and>
           (NumberProperties ev ''prio'' = None \<longrightarrow>
              prevPriority t = UnknownPriority \<and> nextPriority t = UnknownPriority))) \<and>
   (NumberProperties ev ''pid'' = Some p \<longrightarrow> NumberProperties ev ''target_cpu'' = Some tc \<longrightarrow>
      (\<exists>t. fst (LoadSchedWakeup ev ttsb) = None \<and>
           transitions (snd (LoadSchedWakeup ev ttsb)) = transitions ttsb @ [t] \<and>
           (TextProperties ev ''comm'' = None \<longrightarrow>
              (\<exists>h. lookupID [] (bank (snd (LoadSchedWakeup ev ttsb))) = Some h \<and>
                   prevCommand t = Command h \<and> nextCommand t = Command h)) \<and>
           (NumberProperties ev ''prio'' = None \<longrightarrow>
              prevPriority t = UnknownPriority \<and> nextPriority t = UnknownPriority))) \<and>
   (LoadSwitchData ev = Inr sd \<longrightarrow>
      (TextProperties ev ''next_comm'' = None \<longrightarrow> NextComm sd = []) \<and>
      (TextProperties ev ''prev_comm'' = None \<longrightarrow> PrevComm sd = []) \<and>
      (NumberProperties ev ''next_prio'' = None \<longrightarrow> NextPriority sd = UnknownPriority) \<and>
      (NumberProperties ev ''prev_prio'' = None \<longrightarrow> PrevPriority sd = UnknownPriority) \<and>
      (\<forall>ld \<in> {LoadSchedSwitch, LoadSchedSwitchWithSynthetics}.
        \<exists>t1 t2. fst (ld ev ttsb) = None \<and>
           transitions (snd (ld ev ttsb)) = transitions ttsb @ [t1, t2] \<and>
           (TextProperties ev ''next_comm'' = None \<longrightarrow>
              (\<exists>h. lookupID [] (bank (snd (ld ev ttsb))) = Some h \<and>
                   prevCommand t1 = Command h \<and> nextCommand t1 = Command h)) \<and>
           (TextProperties ev ''prev_comm'' = None \<longrightarrow>
              (\<exists>h. lookupID [] (bank (snd (ld ev ttsb))) = Some h \<and>
                   prevCommand t2 = Command h \<and> nextCommand t2 = Command h)) \<and>
           (NumberProperties ev ''next_prio'' = None \<longrightarrow>
              prevPriority t1 = UnknownPriority \<and> nextPriority t1 = UnknownPriority) \<and>
           (NumberProperties ev ''prev_prio'' = None \<longrightarrow>
              prevPriority t2 = UnknownPriority \<and> nextPriority t2 = UnknownPriority)))"
proof (intro conjI impI)
  assume "NumberProperties ev ''pid'' = Some p" "NumberProperties ev ''orig_cpu'' = Some oc"
    "NumberProperties ev ''dest_cpu'' = Some dc"
  from LoadSchedMigrateTask_ok [OF this]
  show "\<exists>t. fst (LoadSchedMigrateTask ev ttsb) = None \<and>
           transitions (snd (LoadSchedMigrateTask ev ttsb)) = transitions ttsb @ [t] \<and>
           (TextProperties ev ''comm'' = None \<longrightarrow>
              (\<exists>h. lookupID [] (bank (snd (LoadSchedMigrateTask ev ttsb))) = Some h \<and>
                   prevCommand t = Command h \<and> nextCommand t = Command h)) \<and>
           (NumberProperties ev ''prio'' = None \<longrightarrow>
              prevPriority t = UnknownPriority \<and> nextPriority t = UnknownPriority)"
    by (simp add: transitions_def textProperty_absent lookupID_intern)
next
  assume "NumberProperties ev ''pid'' = Some p" "NumberProperties ev ''target_cpu'' = Some tc"
  from LoadSchedWakeup_ok [OF this]
  show "\<exists>t. fst (LoadSchedWakeup ev ttsb) = None \<and>
           transitions (snd (LoadSchedWakeup ev ttsb)) = transitions ttsb @ [t] \<and>
           (TextProperties ev ''comm'' = None \<longrightarrow>
              (\<exists>h. lookupID [] (bank (snd (LoadSchedWakeup ev ttsb))) = Some h \<and>
                   prevCommand t = Command h \<and> nextCommand t = Command h)) \<and>
           (NumberProperties ev ''prio'' = None \<longrightarrow>
              prevPriority t = UnknownPriority \<and> nextPriority t = UnknownPriority)"
    by (simp add: transitions_def textProperty_absent lookupID_intern)
next
  assume sd: "LoadSwitchData ev = Inr sd"
  note a = LoadSwitchData_absent [OF sd]
  from a show "TextProperties ev ''next_comm'' = None \<Longrightarrow> NextComm sd = []" by simp
  from a show "TextProperties ev ''prev_comm'' = None \<Longrightarrow> PrevComm sd = []" by simp
  from a show "NumberProperties ev ''next_prio'' = None \<Longrightarrow> NextPriority sd = UnknownPriority"
    by simp
  from a show "NumberProperties ev ''prev_prio'' = None \<Longrightarrow> PrevPriority sd = UnknownPriority"
    by simp
  from a show "\<forall>ld \<in> {LoadSchedSwitch, LoadSchedSwitchWithSynthetics}.
        \<exists>t1 t2. fst (ld ev ttsb) = None \<and>
           transitions (snd (ld ev ttsb)) = transitions ttsb @ [t1, t2] \<and>
           (TextProperties ev ''next_comm'' = None \<longrightarrow>
              (\<exists>h. lookupID [] (bank (snd (ld ev ttsb))) = Some h \<and>
                   prevCommand t1 = Command h \<and> nextCommand t1 = Command h)) \<and>
           (TextProperties ev ''prev_comm'' = None \<longrightarrow>
              (\<exists>h. lookupID [] (bank (snd (ld ev ttsb))) = Some h \<and>
                   prevCommand t2 = Command h \<and> nextCommand t2 = Command h)) \<and>
           (NumberProperties ev ''next_prio'' = None \<longrightarrow>
              prevPriority t1 = UnknownPriority \<and> nextPriority t1 = UnknownPriority) \<and>
           (NumberProperties ev ''prev_prio'' = None \<longrightarrow>
              prevPriority t2 = UnknownPriority \<and> nextPriority t2 = UnknownPriority)"
    by (simp add: LoadSchedSwitch_Inr [OF sd] LoadSchedSwitchWithSynthetics_Inr [OF sd]
        transitions_def lookupID_intern lookupID_intern_other)
qed

theorem absent_command_is_empty_string_witness:
  "(NumberProperties migrateEventNoComm ''pid'' = Some 42 \<and>
    NumberProperties migrateEventNoComm ''orig_cpu'' = Some 1 \<and>
    NumberProperties migrateEventNoComm ''dest_cpu'' = Some 3 \<and>
    TextProperties migrateEventNoComm ''comm'' = None \<and>
    (\<exists>t h. fst (LoadSchedMigrateTask migrateEventNoComm ttsb0) = None \<and>
       transitions (snd (LoadSchedMigrateTask migrateEventNoComm ttsb0)) = [t] \<and>
       lookupID [] (bank (snd (LoadSchedMigrateTask migrateEventNoComm ttsb0))) = Some h \<and>
       prevCommand t = Command h \<and> nextCommand t = Command h)) \<and>
   (NumberProperties wakeupEvent ''pid'' = Some 9 \<and>
    NumberProperties wakeupEvent ''target_cpu'' = Some 4 \<and>
    TextProperties wakeupEvent ''comm'' = None \<and>
    NumberProperties wakeupEvent ''prio'' = None \<and>
    (\<exists>t h. fst (LoadSchedWakeup wakeupEvent ttsb0) = None \<and>
       transitions (snd (LoadSchedWakeup wakeupEvent ttsb0)) = [t] \<and>
       lookupID [] (bank (snd (LoadSchedWakeup wakeupEvent ttsb0))) = Some h \<and>
       prevCommand t = Command h \<and> nextCommand t = Command h \<and>
       prevPriority t = UnknownPriority \<and> nextPriority t = UnknownPriority)) \<and>
   (LoadSwitchData switchEventNoComm = Inr switchDataNoComm \<and>
    TextProperties switchEventNoComm ''next_comm'' = None \<and>
    TextProperties switchEventNoComm ''prev_comm'' = None \<and>
    LoadSchedSwitch \<in> {LoadSchedSwitch, LoadSchedSwitchWithSynthetics} \<and>
    (\<exists>t1 t2 h. fst (LoadSchedSwitch switchEventNoComm ttsb0) = None \<and>
       transitions (snd (LoadSchedSwitch switchEventNoComm ttsb0)) = [t1, t2] \<and>
       lookupID [] (bank (snd (LoadSchedSwitch switchEventNoComm ttsb0))) = Some h \<and>
       prevCommand t1 = Command h \<and> nextCommand t1 = Command h \<and>
       prevCommand t2 = Command h \<and> nextCommand t2 = Command h))"
proof -
  have m: "NumberProperties migrateEventNoComm ''pid'' = Some 42"
    "NumberProperties migrateEventNoComm ''orig_cpu'' = Some 1"
    "NumberProperties migrateEventNoComm ''dest_cpu'' = Some 3"
    and mc: "TextProperties migrateEventNoComm ''comm'' = None"
    by (simp_all add: migrateEventNoComm_def migrateEvent_def)
  have w: "NumberProperties wakeupEvent ''pid'' = Some 9"
    "NumberProperties wakeupEvent ''target_cpu'' = Some 4"
    and wc: "TextProperties wakeupEvent ''comm'' = None"
    "NumberProperties wakeupEvent ''prio'' = None"
    by (simp_all add: wakeupEvent_def)
  have s: "LoadSwitchData switchEventNoComm = Inr switchDataNoComm"
    and sc: "TextProperties switchEventNoComm ''next_comm'' = None"
    "TextProperties switchEventNoComm ''prev_comm'' = None"
    and sl: "LoadSchedSwitch \<in> {LoadSchedSwitch, LoadSchedSwitchWithSynthetics}"
    by (simp_all add: LoadSwitchData_def Let_def switchEventNoComm_def switchEvent_def
        switchDataNoComm_def textProperty_def)
  have tm: "\<exists>t h. fst (LoadSchedMigrateTask migrateEventNoComm ttsb0) = None \<and>
       transitions (snd (LoadSchedMigrateTask migrateEventNoComm ttsb0)) = [t] \<and>
       lookupID [] (bank (snd (LoadSchedMigrateTask migrateEventNoComm ttsb0))) = Some h \<and>
       prevCommand t = Command h \<and> nextCommand t = Command h"
  proof -
    from absent_command_is_empty_string
      [where ev = migrateEventNoComm and ttsb = ttsb0, THEN conjunct1, rule_format, OF m]
    obtain t where
      "fst (LoadSchedMigrateTask migrateEventNoComm ttsb0) = None \<and>
       transitions (snd (LoadSchedMigrateTask migrateEventNoComm ttsb0)) = transitions ttsb0 @ [t] \<and>
       (TextProperties migrateEventNoComm ''comm'' = None \<longrightarrow>
         (\<exists>h. lookupID [] (bank (snd (LoadSchedMigrateTask migrateEventNoComm ttsb0))) = Some h \<and>
              prevCommand t = Command h \<and> nextCommand t = Command h)) \<and>
       (NumberProperties migrateEventNoComm ''prio'' = None \<longrightarrow>
         prevPriority t = UnknownPriority \<and> nextPriority t = UnknownPriority)" ..
    with mc show ?thesis by (auto simp: transitions_ttsb0)
  qed
  have tw: "\<exists>t h. fst (LoadSchedWakeup wakeupEvent ttsb0) = None \<and>
       transitions (snd (LoadSchedWakeup wakeupEvent ttsb0)) = [t] \<and>
       lookupID [] (bank (snd (LoadSchedWakeup wakeupEvent ttsb0))) = Some h \<and>
       prevCommand t = Command h \<and> nextCommand t = Command h \<and>
       prevPriority t = UnknownPriority \<and> nextPriority t = UnknownPriority"
  proof -
    from absent_command_is_empty_string
      [where ev = wakeupEvent and ttsb = ttsb0, THEN conjunct2, THEN conjunct1,
        rule_format, OF w]
    obtain t where
      "fst (LoadSchedWakeup wakeupEvent ttsb0) = None \<and>
       transitions (snd (LoadSchedWakeup wakeupEvent ttsb0)) = transitions ttsb0 @ [t] \<and>
       (TextProperties wakeupEvent ''comm'' = None \<longrightarrow>
         (\<exists>h. lookupID [] (bank (snd (LoadSchedWakeup wakeupEvent ttsb0))) = Some h \<and>
              prevCommand t = Command h \<and> nextCommand t = Command h)) \<and>
       (NumberProperties wakeupEvent ''prio'' = None \<longrightarrow>
         prevPriority t = UnknownPriority \<and> nextPriority t = UnknownPriority)" ..
    with wc show ?thesis by (auto simp: transitions_ttsb0)
  qed
  have ts: "\<exists>t1 t2 h. fst (LoadSchedSwitch switchEventNoComm ttsb0) = None \<and>
       transitions (snd (LoadSchedSwitch switchEventNoComm ttsb0)) = [t1, t2] \<and>
       lookupID [] (bank (snd (LoadSchedSwitch switchEventNoComm ttsb0))) = Some h \<and>
       prevCommand t1 = Command h \<and> nextCommand t1 = Command h \<and>
       prevCommand t2 = Command h \<and> nextCommand t2 = Command h"
  proof -
    from absent_command_is_empty_string
      [where ev = switchEventNoComm and ttsb = ttsb0, THEN conjunct2, THEN conjunct2,
        rule_format, OF s]
    have "\<forall>ld \<in> {LoadSchedSwitch, LoadSchedSwitchWithSynthetics}.
        \<exists>t1 t2. fst (ld switchEventNoComm ttsb0) = None \<and>
           transitions (snd (ld switchEventNoComm ttsb0)) = transitions ttsb0 @ [t1, t2] \<and>
           (TextProperties switchEventNoComm ''next_comm'' = None \<longrightarrow>
              (\<exists>h. lookupID [] (bank (snd (ld switchEventNoComm ttsb0))) = Some h \<and>
                   prevCommand t1 = Command h \<and> nextCommand t1 = Command h)) \<and>
           (TextProperties switchEventNoComm ''prev_comm'' = None \<longrightarrow>
              (\<exists>h. lookupID [] (bank (snd (ld switchEventNoComm ttsb0))) = Some h \<and>
                   prevCommand t2 = Command h \<and> nextCommand t2 = Command h)) \<and>
           (NumberProperties switchEventNoComm ''next_prio'' = None \<longrightarrow>
              prevPriority t1 = UnknownPriority \<and> nextPriority t1 = UnknownPriority) \<and>
           (NumberProperties switchEventNoComm ''prev_prio'' = None \<longrightarrow>
              prevPriority t2 = UnknownPriority \<and> nextPriority t2 = UnknownPriority)"
      by (elim conjE)
    from bspec [OF this sl] obtain t1 t2 where
      "fst (LoadSchedSwitch switchEventNoComm ttsb0) = None \<and>
       transitions (snd (LoadSchedSwitch switchEventNoComm ttsb0)) = transitions ttsb0 @ [t1, t2] \<and>
       (TextProperties switchEventNoComm ''next_comm'' = None \<longrightarrow>
         (\<exists>h. lookupID [] (bank (snd (LoadSchedSwitch switchEventNoComm ttsb0))) = Some h \<and>
              prevCommand t1 = Command h \<and> nextCommand t1 = Command h)) \<and>
       (TextProperties switchEventNoComm ''prev_comm'' = None \<longrightarrow>
         (\<exists>h. lookupID [] (bank (snd (LoadSchedSwitch switchEventNoComm ttsb0))) = Some h \<and>
              prevCommand t2 = Command h \<and> nextCommand t2 = Command h)) \<and>
       (NumberProperties switchEventNoComm ''next_prio'' = None \<longrightarrow>
         prevPriority t1 = UnknownPriority \<and> nextPriority t1 = UnknownPriority) \<and>
       (NumberProperties switchEventNoComm ''prev_prio'' = None \<longrightarrow>
         prevPriority t2 = UnknownPriority \<and> nextPriority t2 = UnknownPriority)"
      by (elim exE)
    with sc show ?thesis by (auto simp: transitions_ttsb0)
  qed
  from tm tw ts m mc w wc s sc sl show ?thesis by (intro conjI)
qed

end
